theory Spec2Isabelle
  imports Main
begin

section \<open>Python values, exceptions and effects\<close>

text \<open>
  The module \<^verbatim>\<open>olwidget/admin.py\<close> is glue code around a web framework. Every call
  into the framework (or into a method that a subclass may override) is a function
  that reads and changes an abstract world \<open>'w\<close> (database, session, message
  store) and either returns a value or raises. An exception is a value \<open>Inl e\<close>; the
  world at the moment of the raise is kept, so that an \<^verbatim>\<open>except\<close> clause can go on
  from it.
\<close>

datatype exn =
    PermissionDenied
  | IncorrectLookupParameters
  | AttributeError
  | TypeError
  | KeyError
  | OtherException string

type_synonym ('a, 'w) M = "'w \<Rightarrow> (exn + 'a) \<times> 'w"

definition returnM :: "'a \<Rightarrow> ('a, 'w) M" where
  "returnM a = (\<lambda>w. (Inr a, w))"

definition raiseM :: "exn \<Rightarrow> ('a, 'w) M" where
  "raiseM e = (\<lambda>w. (Inl e, w))"

definition bindM :: "('a, 'w) M \<Rightarrow> ('a \<Rightarrow> ('b, 'w) M) \<Rightarrow> ('b, 'w) M" where
  "bindM m f = (\<lambda>w. case m w of (Inl e, w') \<Rightarrow> (Inl e, w') | (Inr a, w') \<Rightarrow> f a w')"

text \<open>\<^verbatim>\<open>try: m except E: h\<close> for the one exception class \<open>E\<close>.\<close>

definition try_except :: "('a, 'w) M \<Rightarrow> exn \<Rightarrow> ('a, 'w) M \<Rightarrow> ('a, 'w) M" where
  "try_except m E h =
     (\<lambda>w. case m w of (Inl e, w') \<Rightarrow> (if e = E then h w' else (Inl e, w')) | (Inr a, w') \<Rightarrow> (Inr a, w'))"

text \<open>
  A geometry (\<^verbatim>\<open>GEOSGeometry\<close>) is a value with its class and a spatial reference
  identifier; \<open>Collection\<close> is the class \<^verbatim>\<open>GeometryCollection\<close> itself.
  \<^verbatim>\<open>geom.transform(srid)\<close> works in place; the model puts the transformed geometry
  where the old one was.
\<close>

datatype geom_type =
    Point
  | LineString
  | LinearRing
  | Polygon
  | MultiPoint
  | MultiLineString
  | MultiPolygon
  | Collection

record geometry =
  geom_type :: geom_type
  srid :: "int option"
  wkt :: string

text \<open>
  The values an attribute of a model instance can hold, as far as
  \<^verbatim>\<open>get_changelist_map\<close> tells them apart: \<^verbatim>\<open>None\<close>, a geometry, a callable (a
  method of the instance, called with no arguments), or any other object, of which
  only the truth value matters.
\<close>

datatype 'w pyval =
    PyNone
  | PyGeom geometry
  | PyCallable "'w \<Rightarrow> (exn + 'w pyval) \<times> 'w"
  | PyOther bool

record 'w obj =
  pk :: int
  attrs :: "string \<Rightarrow> 'w pyval option"

text \<open>\<^verbatim>\<open>getattr(obj, field)\<close> raises \<^verbatim>\<open>AttributeError\<close> when there is no such attribute.\<close>

definition getattr :: "'w obj \<Rightarrow> string \<Rightarrow> ('w pyval, 'w) M" where
  "getattr ob field = (case attrs ob field of None \<Rightarrow> raiseM AttributeError | Some v \<Rightarrow> returnM v)"

text \<open>\<^verbatim>\<open>callable(v)\<close>.\<close>

fun callable :: "'w pyval \<Rightarrow> bool" where
  "callable (PyCallable c) = True"
| "callable _ = False"

text \<open>\<^verbatim>\<open>v()\<close>: calling what is not callable raises \<^verbatim>\<open>TypeError\<close>.\<close>

fun call :: "'w pyval \<Rightarrow> ('w pyval, 'w) M" where
  "call (PyCallable c) = c"
| "call _ = raiseM TypeError"


section \<open>The objects the admin works with\<close>

text \<open>An object this module only hands on (map options, field classes).\<close>

typedecl pyobject

text \<open>A form \<^verbatim>\<open>Media\<close> object, as the list of its assets; \<^verbatim>\<open>+\<close> on it is the framework's.\<close>

type_synonym Media = "string list"

record request =
  path :: string
  full_path :: string
  http_method :: string
  GET :: "string \<Rightarrow> string list option"
  POST :: "string \<Rightarrow> string list option"
  FILES :: "string \<Rightarrow> string list option"
  current_app :: "string option"

text \<open>\<^verbatim>\<open>model._meta\<close>.\<close>

record opts =
  app_label :: string
  model_name :: string
  verbose_name :: string
  verbose_name_plural :: string

record geometry_collection =
  gc_geoms :: "geometry list"
  gc_srid :: int

text \<open>
  \<^verbatim>\<open>InfoMap\<close> is a class of \<^verbatim>\<open>olwidget.widgets\<close>; an instance is represented by the
  arguments of its constructor.
\<close>

record infomap =
  info :: "(geometry_collection \<times> string) list"
  info_options :: "pyobject option"

definition InfoMap :: "(geometry_collection \<times> string) list \<Rightarrow> pyobject option \<Rightarrow> infomap" where
  "InfoMap i opt = \<lparr>info = i, info_options = opt\<rparr>"

text \<open>A form of the bulk-edit formset, and the formset.\<close>

record 'w bulk_form =
  form_id :: nat
  has_changed :: "(bool, 'w) M"

record 'w formset =
  forms :: "'w bulk_form list"
  is_valid :: "(bool, 'w) M"
  formset_media :: Media

record action_form =
  choices :: "(string \<times> string) list"

text \<open>The \<^verbatim>\<open>ChangeList\<close> object \<^verbatim>\<open>cl\<close>.\<close>

record 'w changelist =
  result_list :: "'w obj list"
  result_count :: nat
  title :: string
  is_popup :: bool
  to_field :: "string option"
  cl_opts :: opts
  cl_list_editable :: "string list"
  formset :: "'w formset option"
  get_queryset :: "request option \<Rightarrow> ('w obj list, 'w) M"
  url_for_result :: "'w obj \<Rightarrow> string"

text \<open>The values of the template context.\<close>

datatype 'w ctxval =
    CStr string
  | CBool bool
  | CMedia Media
  | CChangeList "'w changelist"
  | COpts opts
  | CActionForm "action_form option"
  | CToField "string option"
  | CMap infomap
  | CObject pyobject

type_synonym 'w template_context = "string \<Rightarrow> 'w ctxval option"

datatype template = Template string | Templates "string list"

datatype 'w response =
    TemplateResponse request template "'w template_context"
  | SimpleTemplateResponse string "'w template_context"
  | HttpResponseRedirect string
  | HttpResponse pyobject

datatype level = WARNING | SUCCESS

datatype fmtarg = FStr string | FInt int

text \<open>
  The class \<^verbatim>\<open>ChangeList\<close> that \<^verbatim>\<open>get_changelist\<close> returns, as its constructor. The
  arguments are those of the call in \<^verbatim>\<open>changelist_view\<close>, in its order, but for the
  last one, the admin itself.
\<close>

type_synonym 'w changelist_class =
  "request \<Rightarrow> opts \<Rightarrow> string list \<Rightarrow> string list \<Rightarrow> string list \<Rightarrow> string option \<Rightarrow>
   string list \<Rightarrow> bool \<Rightarrow> nat \<Rightarrow> nat \<Rightarrow> string list \<Rightarrow> ('w changelist, 'w) M"

text \<open>
  The class that \<^verbatim>\<open>get_changelist_formset\<close> returns, as its constructor:
  \<^verbatim>\<open>FormSet(request.POST, request.FILES, queryset=...)\<close> with the data, or
  \<^verbatim>\<open>FormSet(queryset=...)\<close> without.
\<close>

type_synonym 'w formset_class =
  "((string \<Rightarrow> string list option) \<times> (string \<Rightarrow> string list option)) option \<Rightarrow> 'w obj list \<Rightarrow>
   ('w formset, 'w) M"

text \<open>
  A form instance, as far as \<^verbatim>\<open>get_form\<close> is concerned: its \<^verbatim>\<open>initial\<close> and
  \<^verbatim>\<open>cleaned_data\<close> dicts (absent before they are set), and what
  \<^verbatim>\<open>self.initial_data_keymap\<close> gives on it, which is the attribute of its class. A
  method of the form reads and changes the instance.
\<close>

type_synonym data = "string \<Rightarrow> string option"

type_synonym keymap = "(string \<times> string list) list"

type_synonym form_fields = "(string \<times> string) list"

type_synonym call_args = "string list"

record form =
  initial :: "data option"
  cleaned_data :: "data option"
  self_initial_data_keymap :: "keymap option"

text \<open>The \<^verbatim>\<open>ModelForm\<close> class: \<^verbatim>\<open>__init__\<close>, \<^verbatim>\<open>clean\<close> and two class attributes.\<close>

record form_class =
  init :: "call_args \<Rightarrow> (unit, form) M"
  clean :: "(data option, form) M"
  base_fields :: form_fields
  initial_data_keymap :: "keymap option"

text \<open>
  The admin object \<^verbatim>\<open>self\<close>: the class attributes of \<^verbatim>\<open>GeoModelAdmin\<close>, the
  attributes it inherits and reads, and the inherited methods it calls (any of which
  a subclass may override).
\<close>

record 'w model_admin =
  options :: "pyobject option"
  map_template :: string
  list_map :: "string list option"
  list_map_options :: "pyobject option"
  maps :: "pyobject option"
  change_list_template :: "string option"
  default_field_class :: "pyobject option"
  model_meta :: opts
  date_hierarchy :: "string option"
  list_select_related :: bool
  list_per_page :: nat
  list_max_show_all :: nat
  list_editable :: "string list"
  actions_on_top :: bool
  actions_on_bottom :: bool
  actions_selection_counter :: bool
  media :: Media
  admin_site_name :: string
  has_change_permission :: "request \<Rightarrow> (bool, 'w) M"
  get_list_display :: "request \<Rightarrow> (string list, 'w) M"
  get_list_display_links :: "request \<Rightarrow> string list \<Rightarrow> (string list, 'w) M"
  get_list_filter :: "request \<Rightarrow> (string list, 'w) M"
  get_search_fields :: "request \<Rightarrow> (string list, 'w) M"
  get_actions :: "request \<Rightarrow> (string list, 'w) M"
  get_changelist :: "request \<Rightarrow> ('w changelist_class, 'w) M"
  response_action :: "request \<Rightarrow> 'w obj list \<Rightarrow> ('w response option, 'w) M"
  message_user :: "request \<Rightarrow> string \<Rightarrow> level \<Rightarrow> (unit, 'w) M"
  get_changelist_formset :: "request \<Rightarrow> ('w formset_class, 'w) M"
  save_form :: "request \<Rightarrow> 'w bulk_form \<Rightarrow> ('w obj, 'w) M"
  save_model :: "request \<Rightarrow> 'w obj \<Rightarrow> 'w bulk_form \<Rightarrow> (unit, 'w) M"
  save_related :: "request \<Rightarrow> 'w bulk_form \<Rightarrow> (unit, 'w) M"
  construct_change_message :: "request \<Rightarrow> 'w bulk_form \<Rightarrow> (string, 'w) M"
  log_change :: "request \<Rightarrow> 'w obj \<Rightarrow> string \<Rightarrow> (unit, 'w) M"
  new_action_form :: "(action_form, 'w) M"
  get_action_choices :: "request \<Rightarrow> ((string \<times> string) list, 'w) M"
  each_context :: "request \<Rightarrow> ('w template_context, 'w) M"
  has_add_permission :: "request \<Rightarrow> (bool, 'w) M"
  get_preserved_filters :: "request \<Rightarrow> (string, 'w) M"
  super_get_form :: "call_args \<Rightarrow> (form_class, 'w) M"

text \<open>
  What the module imports: from the framework, and from its sibling modules
  \<^verbatim>\<open>olwidget.utils\<close>, \<^verbatim>\<open>olwidget.widgets\<close> and \<^verbatim>\<open>olwidget.forms\<close>, which are not
  part of the file. \<open>DEFAULT_PROJ\<close> is the number \<^verbatim>\<open>int(DEFAULT_PROJ)\<close>; \<open>geom_bool\<close>,
  \<open>map_bool\<close> and \<open>formset_bool\<close> are the truth values of a geometry, of an
  \<^verbatim>\<open>InfoMap\<close> and of a formset; \<open>transform\<close> is \<^verbatim>\<open>GEOSGeometry.transform\<close>; \<open>map_media\<close>
  is the \<^verbatim>\<open>media\<close> property of an \<^verbatim>\<open>InfoMap\<close>; \<open>percent\<close> is \<^verbatim>\<open>%\<close> on a string and a
  dict. \<open>fix_initial_data\<close> and \<open>fix_cleaned_data\<close> change the dict they are given in
  place: the function gives the dict afterwards. \<open>apply_maps_to_modelform_fields\<close>
  changes the fields in place and returns the keymap: the function gives both.
\<close>

record 'w env =
  DEFAULT_PROJ :: int
  force_text :: "'w obj \<Rightarrow> string"
  force_text_str :: "string \<Rightarrow> string"
  geom_bool :: "geometry \<Rightarrow> bool"
  transform :: "int \<Rightarrow> geometry \<Rightarrow> exn + geometry"
  map_media :: "infomap \<Rightarrow> Media"
  media_add :: "Media \<Rightarrow> Media \<Rightarrow> Media"
  ERROR_FLAG :: string
  ACTION_CHECKBOX_NAME :: string
  gettext :: "string \<Rightarrow> string"
  ungettext :: "string \<Rightarrow> string \<Rightarrow> nat \<Rightarrow> string"
  percent :: "string \<Rightarrow> (string \<times> fmtarg) list \<Rightarrow> string"
  map_bool :: "infomap \<Rightarrow> bool"
  formset_bool :: "'w formset \<Rightarrow> bool"
  fix_initial_data :: "data \<Rightarrow> keymap \<Rightarrow> data"
  fix_cleaned_data :: "data \<Rightarrow> keymap \<Rightarrow> data"
  apply_maps_to_modelform_fields ::
    "form_fields \<Rightarrow> pyobject option \<Rightarrow> pyobject option \<Rightarrow> string \<Rightarrow> pyobject option \<Rightarrow>
     keymap \<times> form_fields"

section \<open>\<^verbatim>\<open>get_changelist_map\<close>\<close>

text \<open>The truth value \<^verbatim>\<open>if geom:\<close> tests. A function or a bound method is true.\<close>

fun truthy :: "'w env \<Rightarrow> 'w pyval \<Rightarrow> bool" where
  "truthy E PyNone = False"
| "truthy E (PyGeom g) = geom_bool E g"
| "truthy E (PyCallable c) = True"
| "truthy E (PyOther b) = b"

text \<open>
  The inner loop \<^verbatim>\<open>for field in self.list_map\<close>: the attribute is read, tested, called
  if it is callable, and appended to \<^verbatim>\<open>geoms\<close>.
\<close>

fun collect_geoms :: "'w env \<Rightarrow> string list \<Rightarrow> 'w obj \<Rightarrow> 'w pyval list \<Rightarrow> ('w pyval list, 'w) M" where
  "collect_geoms E [] ob geoms = returnM geoms"
| "collect_geoms E (field # flds) ob geoms =
     bindM (getattr ob field) (\<lambda>geom.
       if truthy E geom then
         bindM (if callable geom then call geom else returnM geom) (\<lambda>geom.
           collect_geoms E flds ob (geoms @ [geom]))
       else collect_geoms E flds ob geoms)"

text \<open>
  \<^verbatim>\<open>geom.transform(srid)\<close>: only a geometry has the method; the geometry is changed in
  place, so the value at this place of the list is the transformed one afterwards.
\<close>

fun geom_transform :: "'w env \<Rightarrow> 'w pyval \<Rightarrow> int \<Rightarrow> ('w pyval, 'w) M" where
  "geom_transform E (PyGeom g) s =
     (case transform E s g of Inl e \<Rightarrow> raiseM e | Inr g' \<Rightarrow> returnM (PyGeom g'))"
| "geom_transform E _ s = raiseM AttributeError"

text \<open>The loop \<^verbatim>\<open>for geom in geoms: geom.transform(int(DEFAULT_PROJ))\<close>.\<close>

fun transform_geoms :: "'w env \<Rightarrow> 'w pyval list \<Rightarrow> ('w pyval list, 'w) M" where
  "transform_geoms E [] = returnM []"
| "transform_geoms E (geom # geoms) =
     bindM (geom_transform E geom (DEFAULT_PROJ E)) (\<lambda>geom.
     bindM (transform_geoms E geoms) (\<lambda>geoms.
       returnM (geom # geoms)))"

text \<open>
  \<^verbatim>\<open>GeometryCollection(geoms, srid=s)\<close> takes geometries of the classes it allows:
  points, line strings, linear rings, polygons and the three multi-geometries. For
  anything else, a \<^verbatim>\<open>GeometryCollection\<close> among them, it raises \<^verbatim>\<open>TypeError\<close>.
\<close>

fun as_geometries :: "'w pyval list \<Rightarrow> geometry list option" where
  "as_geometries [] = Some []"
| "as_geometries (PyGeom g # vs) =
     (if geom_type g = Collection then None
      else case as_geometries vs of None \<Rightarrow> None | Some gs \<Rightarrow> Some (g # gs))"
| "as_geometries (_ # vs) = None"

definition GeometryCollection :: "'w pyval list \<Rightarrow> int \<Rightarrow> (geometry_collection, 'w) M" where
  "GeometryCollection geoms s =
     (case as_geometries geoms of
        None \<Rightarrow> raiseM TypeError
      | Some gs \<Rightarrow> returnM \<lparr>gc_geoms = gs, gc_srid = s\<rparr>)"

text \<open>\<^verbatim>\<open>"<a href='%s'>%s</a>" % (url, text)\<close>.\<close>

definition popup_link :: "string \<Rightarrow> string \<Rightarrow> string" where
  "popup_link url label = ''<a href='' @ [CHR 0x27] @ url @ [CHR 0x27] @ ''>'' @ label @ ''</a>''"

text \<open>The outer loop \<^verbatim>\<open>for obj in qs\<close>, with the list \<^verbatim>\<open>info\<close> it appends to.\<close>

fun changelist_map_info ::
  "'w env \<Rightarrow> string list \<Rightarrow> 'w changelist \<Rightarrow> 'w obj list \<Rightarrow> (geometry_collection \<times> string) list \<Rightarrow>
   ((geometry_collection \<times> string) list, 'w) M" where
  "changelist_map_info E flds cl [] infos = returnM infos"
| "changelist_map_info E flds cl (ob # qs) infos =
     bindM (collect_geoms E flds ob []) (\<lambda>geoms.
     bindM (transform_geoms E geoms) (\<lambda>geoms.
       if geoms \<noteq> [] then
         bindM (GeometryCollection geoms (DEFAULT_PROJ E)) (\<lambda>gc.
           changelist_map_info E flds cl qs
             (infos @ [(gc, popup_link (url_for_result cl ob) (force_text E ob))]))
       else changelist_map_info E flds cl qs infos))"

text \<open>
  \<^verbatim>\<open>if self.list_map:\<close> is false for \<^verbatim>\<open>None\<close> and for an empty list; \<^verbatim>\<open>if request:\<close> is
  false for \<^verbatim>\<open>None\<close>.
\<close>

definition get_changelist_map ::
  "'w env \<Rightarrow> 'w model_admin \<Rightarrow> 'w changelist \<Rightarrow> request option \<Rightarrow> (infomap option, 'w) M" where
  "get_changelist_map E self cl req =
     (case list_map self of
        None \<Rightarrow> returnM None
      | Some flds \<Rightarrow>
          if flds = [] then returnM None
          else
            bindM (case req of
                     Some r \<Rightarrow> get_queryset cl (Some r)
                   | None \<Rightarrow> get_queryset cl None) (\<lambda>qs.
            bindM (changelist_map_info E flds cl qs []) (\<lambda>infos.
              returnM (Some (InfoMap infos (list_map_options self))))))"


section \<open>\<^verbatim>\<open>get_form\<close>\<close>

text \<open>
  \<^verbatim>\<open>new_init\<close> and \<^verbatim>\<open>new_clean\<close>, the closures over \<^verbatim>\<open>orig_init\<close> and \<^verbatim>\<open>orig_clean\<close>.
\<close>

definition new_init :: "'w env \<Rightarrow> (call_args \<Rightarrow> (unit, form) M) \<Rightarrow> call_args \<Rightarrow> (unit, form) M" where
  "new_init E orig_init args =
     bindM (orig_init args) (\<lambda>_ f.
       case initial f of
         None \<Rightarrow> (Inl AttributeError, f)
       | Some d \<Rightarrow>
           (case self_initial_data_keymap f of
              None \<Rightarrow> (Inl AttributeError, f)
            | Some km \<Rightarrow> (Inr (), f\<lparr>initial := Some (fix_initial_data E d km)\<rparr>)))"

definition new_clean :: "'w env \<Rightarrow> (data option, form) M \<Rightarrow> (data option, form) M" where
  "new_clean E orig_clean =
     bindM orig_clean (\<lambda>_ f.
       case cleaned_data f of
         None \<Rightarrow> (Inl AttributeError, f)
       | Some d \<Rightarrow>
           (case self_initial_data_keymap f of
              None \<Rightarrow> (Inl AttributeError, f)
            | Some km \<Rightarrow>
                (let f' = f\<lparr>cleaned_data := Some (fix_cleaned_data E d km)\<rparr>
                 in (Inr (cleaned_data f'), f'))))"

definition get_form :: "'w env \<Rightarrow> 'w model_admin \<Rightarrow> call_args \<Rightarrow> (form_class, 'w) M" where
  "get_form E self args =
     bindM (super_get_form self args) (\<lambda>ModelForm.
       let orig_init = init ModelForm;
           orig_clean = clean ModelForm;
           ModelForm = ModelForm\<lparr>init := new_init E orig_init\<rparr>;
           ModelForm = ModelForm\<lparr>clean := new_clean E orig_clean\<rparr>;
           (km, flds) = apply_maps_to_modelform_fields E (base_fields ModelForm) (maps self)
                          (options self) (map_template self) (default_field_class self);
           ModelForm = ModelForm\<lparr>base_fields := flds, initial_data_keymap := Some km\<rparr>
       in returnM ModelForm)"

text \<open>\<^verbatim>\<open>ModelForm(*args)\<close> and \<^verbatim>\<open>form.clean()\<close> on an instance of the class.\<close>

definition new_form :: "form_class \<Rightarrow> call_args \<Rightarrow> (exn + unit) \<times> form" where
  "new_form C args =
     init C args \<lparr>initial = None, cleaned_data = None,
                  self_initial_data_keymap = initial_data_keymap C\<rparr>"

section \<open>\<^verbatim>\<open>changelist_view\<close>\<close>

text \<open>
  The method returns from several places. A block of it gives \<open>Return r\<close> when it
  returns the response \<open>r\<close>, and \<open>Continue x\<close> when control goes on below it.
\<close>

datatype ('r, 'a) flow = Return 'r | Continue 'a

text \<open>\<^verbatim>\<open>QueryDict.getlist\<close>.\<close>

definition getlist :: "(string \<Rightarrow> string list option) \<Rightarrow> string \<Rightarrow> string list" where
  "getlist qd k = (case qd k of None \<Rightarrow> [] | Some vs \<Rightarrow> vs)"

text \<open>The \<^verbatim>\<open>try\<close> block around the construction of the \<^verbatim>\<open>ChangeList\<close>.\<close>

definition construct_changelist ::
  "'w env \<Rightarrow> 'w model_admin \<Rightarrow> request \<Rightarrow> 'w changelist_class \<Rightarrow> string list \<Rightarrow> string list \<Rightarrow>
   string list \<Rightarrow> string list \<Rightarrow> (('w response, 'w changelist) flow, 'w) M" where
  "construct_changelist E self request ChangeList list_display list_display_links list_filter
     search_fields =
     try_except
       (bindM (ChangeList request (model_meta self) list_display list_display_links list_filter
                 (date_hierarchy self) search_fields (list_select_related self)
                 (list_per_page self) (list_max_show_all self) (list_editable self)) (\<lambda>cl.
          returnM (Continue cl)))
       IncorrectLookupParameters
       (if GET request (ERROR_FLAG E) \<noteq> None then
          returnM (Return (SimpleTemplateResponse ''admin/invalid_setup.html''
                     [''title'' \<mapsto> CStr (gettext E ''Database error'')]))
        else returnM (Return (HttpResponseRedirect (path request @ ''?'' @ ERROR_FLAG E @ ''=1''))))"

text \<open>The two blocks for actions, without and with confirmation; the result is \<^verbatim>\<open>action_failed\<close>.\<close>

definition changelist_actions ::
  "'w env \<Rightarrow> 'w model_admin \<Rightarrow> request \<Rightarrow> 'w changelist \<Rightarrow> string list \<Rightarrow>
   (('w response, bool) flow, 'w) M" where
  "changelist_actions E self request cl acts =
     (let selected = getlist (POST request) (ACTION_CHECKBOX_NAME E) in
      bindM
        (if acts \<noteq> [] \<and> http_method request = ''POST'' \<and>
            POST request ''index'' \<noteq> None \<and> POST request ''_save'' = None then
           (if selected \<noteq> [] then
              bindM (get_queryset cl (Some request)) (\<lambda>qs.
              bindM (response_action self request qs) (\<lambda>response.
                case response of
                  Some r \<Rightarrow> returnM (Return r)
                | None \<Rightarrow> returnM (Continue True)))
            else
              bindM (message_user self request
                       (gettext E (''Items must be selected in order to perform '' @
                                   ''actions on them. No items have been changed.''))
                       WARNING) (\<lambda>_.
                returnM (Continue True)))
         else returnM (Continue False))
        (\<lambda>fl. case fl of
           Return r \<Rightarrow> returnM (Return r)
         | Continue action_failed \<Rightarrow>
             if acts \<noteq> [] \<and> http_method request = ''POST'' \<and>
                POST request (ACTION_CHECKBOX_NAME E) \<noteq> None \<and>
                POST request ''index'' = None \<and> POST request ''_save'' = None then
               (if selected \<noteq> [] then
                  bindM (get_queryset cl (Some request)) (\<lambda>qs.
                  bindM (response_action self request qs) (\<lambda>response.
                    case response of
                      Some r \<Rightarrow> returnM (Return r)
                    | None \<Rightarrow> returnM (Continue True)))
                else returnM (Continue action_failed))
             else returnM (Continue action_failed)))"

text \<open>
  The loop \<^verbatim>\<open>for form in formset.forms\<close> of the bulk edit, with \<^verbatim>\<open>changecount\<close> and the
  last \<^verbatim>\<open>obj\<close> saved.
\<close>

fun save_changed_forms ::
  "'w model_admin \<Rightarrow> request \<Rightarrow> 'w bulk_form list \<Rightarrow> nat \<Rightarrow> 'w obj option \<Rightarrow>
   (nat \<times> 'w obj option, 'w) M" where
  "save_changed_forms self request [] changecount last_obj = returnM (changecount, last_obj)"
| "save_changed_forms self request (form # rest) changecount last_obj =
     bindM (has_changed form) (\<lambda>changed.
       if changed then
         bindM (save_form self request form) (\<lambda>ob.
         bindM (save_model self request ob form) (\<lambda>_.
         bindM (save_related self request form) (\<lambda>_.
         bindM (construct_change_message self request form) (\<lambda>change_msg.
         bindM (log_change self request ob change_msg) (\<lambda>_.
           save_changed_forms self request rest (changecount + 1) (Some ob))))))
       else save_changed_forms self request rest changecount last_obj)"

text \<open>The bulk edit: the POSTed formset, or the formset for display.\<close>

definition changelist_bulk_edit ::
  "'w env \<Rightarrow> 'w model_admin \<Rightarrow> request \<Rightarrow> 'w changelist \<Rightarrow> bool \<Rightarrow>
   (('w response, 'w formset option \<times> 'w changelist) flow, 'w) M" where
  "changelist_bulk_edit E self request cl0 action_failed =
     (let cl = cl0\<lparr>formset := None\<rparr> in
      if http_method request = ''POST'' \<and> cl_list_editable cl \<noteq> [] \<and>
         POST request ''_save'' \<noteq> None \<and> \<not> action_failed then
        bindM (get_changelist_formset self request) (\<lambda>FormSet.
        bindM (FormSet (Some (POST request, FILES request)) (result_list cl)) (\<lambda>fs.
        bindM (is_valid fs) (\<lambda>valid.
          if valid then
            bindM (save_changed_forms self request (forms fs) 0 None) (\<lambda>(changecount, last_obj).
            bindM
              (if changecount \<noteq> 0 then
                 (case last_obj of
                    None \<Rightarrow> raiseM (OtherException ''UnboundLocalError'')
                  | Some ob \<Rightarrow>
                      (let name = (if changecount = 1
                                   then force_text_str E (verbose_name (model_meta self))
                                   else force_text_str E (verbose_name_plural (model_meta self)));
                           msg = percent E
                                   (ungettext E ''%(count)s %(name)s was changed successfully.''
                                      ''%(count)s %(name)s were changed successfully.'' changecount)
                                   [(''count'', FInt (int changecount)), (''name'', FStr name),
                                    (''obj'', FStr (force_text E ob))]
                       in message_user self request msg SUCCESS))
               else returnM ()) (\<lambda>_.
              returnM (Return (HttpResponseRedirect (full_path request)))))
          else returnM (Continue (Some fs, cl\<lparr>formset := Some fs\<rparr>)))))
      else if cl_list_editable cl \<noteq> [] then
        bindM (get_changelist_formset self request) (\<lambda>FormSet.
        bindM (FormSet None (result_list cl)) (\<lambda>fs.
          returnM (Continue (Some fs, cl\<lparr>formset := Some fs\<rparr>))))
      else returnM (Continue (None, cl)))"

text \<open>The media, the action form and the context dict, updated with \<^verbatim>\<open>extra_context\<close>.\<close>

definition changelist_context ::
  "'w env \<Rightarrow> 'w model_admin \<Rightarrow> request \<Rightarrow> 'w changelist \<Rightarrow> 'w formset option \<Rightarrow> string list \<Rightarrow>
   'w template_context option \<Rightarrow> ('w template_context, 'w) M" where
  "changelist_context E self request cl fset acts extra_context =
     (let md = (case fset of
                  None \<Rightarrow> media self
                | Some fs \<Rightarrow> if formset_bool E fs then media_add E (media self) (formset_media fs)
                             else media self) in
      bindM
        (if acts \<noteq> [] then
           bindM (new_action_form self) (\<lambda>af.
           bindM (get_action_choices self request) (\<lambda>ch.
             returnM (Some (af\<lparr>choices := ch\<rparr>))))
         else returnM None) (\<lambda>aform.
      let selection_note_all = ungettext E ''%(total_count)s selected''
                                 ''All %(total_count)s selected'' (result_count cl) in
      bindM (each_context self request) (\<lambda>base.
      bindM (has_add_permission self request) (\<lambda>add_perm.
      bindM (get_preserved_filters self request) (\<lambda>filters.
      let ctx = base ++ map_of
            [(''module_name'', CStr (force_text_str E (verbose_name_plural (model_meta self)))),
             (''selection_note'', CStr (percent E (gettext E ''0 of %(cnt)s selected'')
                                    [(''cnt'', FInt (int (length (result_list cl))))])),
             (''selection_note_all'', CStr (percent E selection_note_all
                                    [(''total_count'', FInt (int (result_count cl)))])),
             (''title'', CStr (title cl)),
             (''is_popup'', CBool (is_popup cl)),
             (''to_field'', CToField (to_field cl)),
             (''cl'', CChangeList cl),
             (''media'', CMedia md),
             (''has_add_permission'', CBool add_perm),
             (''opts'', COpts (cl_opts cl)),
             (''action_form'', CActionForm aform),
             (''actions_on_top'', CBool (actions_on_top self)),
             (''actions_on_bottom'', CBool (actions_on_bottom self)),
             (''actions_selection_counter'', CBool (actions_selection_counter self)),
             (''preserved_filters'', CStr filters)]
      in returnM (ctx ++ (case extra_context of None \<Rightarrow> Map.empty | Some extra \<Rightarrow> extra)))))))"

text \<open>
  The first lines of the method, down to \<^verbatim>\<open>ChangeList = self.get_changelist(request)\<close>:
  the permission check, the columns, filters and search fields, the actions and the
  class of the change list.
\<close>

definition changelist_view_setup ::
  "'w model_admin \<Rightarrow> request \<Rightarrow>
   (string list \<times> string list \<times> string list \<times> string list \<times> string list \<times> 'w changelist_class, 'w) M" where
  "changelist_view_setup self request =
     bindM (has_change_permission self request) (\<lambda>permitted.
       if \<not> permitted then raiseM PermissionDenied
       else
         bindM (get_list_display self request) (\<lambda>list_display.
         bindM (get_list_display_links self request list_display) (\<lambda>list_display_links.
         bindM (get_list_filter self request) (\<lambda>list_filter.
         bindM (get_search_fields self request) (\<lambda>search_fields.
         bindM (get_actions self request) (\<lambda>acts.
         let list_display = (if acts \<noteq> [] then ''action_checkbox'' # list_display
                             else list_display) in
         bindM (get_changelist self request) (\<lambda>ChangeList.
           returnM (list_display, list_display_links, list_filter, search_fields, acts,
                    ChangeList))))))))"

text \<open>
  The part of the method above the lines marked as the modification: it returns a
  response, or goes on with the change list and the context.
\<close>

definition changelist_view_head ::
  "'w env \<Rightarrow> 'w model_admin \<Rightarrow> request \<Rightarrow> 'w template_context option \<Rightarrow>
   (('w response, 'w changelist \<times> 'w template_context) flow, 'w) M" where
  "changelist_view_head E self request extra_context =
     bindM (changelist_view_setup self request)
       (\<lambda>(list_display, list_display_links, list_filter, search_fields, acts, ChangeList).
         bindM (construct_changelist E self request ChangeList list_display list_display_links
                  list_filter search_fields) (\<lambda>fl.
           case fl of
             Return r \<Rightarrow> returnM (Return r)
           | Continue cl \<Rightarrow>
         bindM (changelist_actions E self request cl acts) (\<lambda>fl.
           case fl of
             Return r \<Rightarrow> returnM (Return r)
           | Continue action_failed \<Rightarrow>
         bindM (changelist_bulk_edit E self request cl action_failed) (\<lambda>fl.
           case fl of
             Return r \<Rightarrow> returnM (Return r)
           | Continue (fset, cl) \<Rightarrow>
         bindM (changelist_context E self request cl fset acts extra_context) (\<lambda>ctx.
           returnM (Continue (cl, ctx)))))))"

text \<open>
  The lines between \<^verbatim>\<open># MODIFICATION\<close> and \<^verbatim>\<open># END MODIFICATION\<close>. The map is asked
  for without the request. \<^verbatim>\<open>context['media'] += map_.media\<close> needs the key and a
  \<^verbatim>\<open>Media\<close> under it.
\<close>

definition changelist_view_map ::
  "'w env \<Rightarrow> 'w model_admin \<Rightarrow> 'w changelist \<Rightarrow> 'w template_context \<Rightarrow> ('w template_context, 'w) M" where
  "changelist_view_map E self cl ctx =
     bindM (get_changelist_map E self cl None) (\<lambda>map_opt.
       case map_opt of
         None \<Rightarrow> returnM ctx
       | Some m \<Rightarrow>
           if map_bool E m then
             (case ctx ''media'' of
                None \<Rightarrow> raiseM KeyError
              | Some (CMedia md) \<Rightarrow>
                  returnM (ctx(''media'' \<mapsto> CMedia (media_add E md (map_media E m)),
                               ''map'' \<mapsto> CMap m))
              | Some _ \<Rightarrow> raiseM TypeError)
           else returnM ctx)"

text \<open>The last lines: \<^verbatim>\<open>request.current_app\<close> is set and the response is made.\<close>

definition changelist_view_tail :: "'w model_admin \<Rightarrow> request \<Rightarrow> 'w template_context \<Rightarrow> 'w response" where
  "changelist_view_tail self request ctx =
     TemplateResponse (request\<lparr>current_app := Some (admin_site_name self)\<rparr>)
       (case change_list_template self of
          None \<Rightarrow> Templates
            [''admin/'' @ app_label (model_meta self) @ ''/'' @ model_name (model_meta self) @
               ''/change_list.html'',
             ''admin/'' @ app_label (model_meta self) @ ''/change_list.html'',
             ''admin/change_list.html'']
        | Some t \<Rightarrow>
            if t \<noteq> [] then Template t
            else Templates
              [''admin/'' @ app_label (model_meta self) @ ''/'' @ model_name (model_meta self) @
                 ''/change_list.html'',
               ''admin/'' @ app_label (model_meta self) @ ''/change_list.html'',
               ''admin/change_list.html''])
       ctx"

text \<open>
  \<^verbatim>\<open>GeoModelAdmin.changelist_view\<close>. The decorator \<^verbatim>\<open>csrf_protect_m\<close> is the framework's
  and stands before the parent's method as well; the model is of the method's body.
\<close>

definition changelist_view ::
  "'w env \<Rightarrow> 'w model_admin \<Rightarrow> request \<Rightarrow> 'w template_context option \<Rightarrow> ('w response, 'w) M" where
  "changelist_view E self request extra_context =
     bindM (changelist_view_head E self request extra_context) (\<lambda>fl.
       case fl of
         Return r \<Rightarrow> returnM r
       | Continue (cl, ctx) \<Rightarrow>
           bindM (changelist_view_map E self cl ctx) (\<lambda>ctx.
             returnM (changelist_view_tail self request ctx)))"

text \<open>
  The parent's method, after the words of the specification: the method above is
  ``a near-verbatim copy of a list-view controller method with two inserted lines to
  compute and attach a map object to the render context''. The parent's method is
  the same text without the inserted lines.
\<close>

definition ModelAdmin_changelist_view ::
  "'w env \<Rightarrow> 'w model_admin \<Rightarrow> request \<Rightarrow> 'w template_context option \<Rightarrow> ('w response, 'w) M" where
  "ModelAdmin_changelist_view E self request extra_context =
     bindM (changelist_view_head E self request extra_context) (\<lambda>fl.
       case fl of
         Return r \<Rightarrow> returnM r
       | Continue (cl, ctx) \<Rightarrow> returnM (changelist_view_tail self request ctx))"


section \<open>Notions used in the statements\<close>

text \<open>
  The values of the listed attributes of an object that are true, in the order of
  \<^verbatim>\<open>list_map\<close>; an object has a geometry field set when there is one.
\<close>

fun listed_values :: "'w env \<Rightarrow> string list \<Rightarrow> 'w obj \<Rightarrow> 'w pyval list" where
  "listed_values E [] ob = []"
| "listed_values E (f # fs) ob =
     (case attrs ob f of
        None \<Rightarrow> listed_values E fs ob
      | Some v \<Rightarrow> if truthy E v then v # listed_values E fs ob else listed_values E fs ob)"

definition has_geometry :: "'w env \<Rightarrow> string list \<Rightarrow> 'w obj \<Rightarrow> bool" where
  "has_geometry E fs ob = (listed_values E fs ob \<noteq> [])"

text \<open>
  \<open>collected_from v r\<close>: \<open>r\<close> is what is collected for the attribute value \<open>v\<close>, the
  value itself, or what a call of it returned when it is callable.
\<close>

definition collected_from :: "'w pyval \<Rightarrow> 'w pyval \<Rightarrow> bool" where
  "collected_from v r = (case v of PyCallable c \<Rightarrow> (\<exists>w w'. c w = (Inr r, w')) | _ \<Rightarrow> r = v)"

text \<open>\<open>transformed_to E v m\<close>: \<open>v\<close> is a geometry and \<open>m\<close> is its transform to the target projection.\<close>

definition transformed_to :: "'w env \<Rightarrow> 'w pyval \<Rightarrow> geometry \<Rightarrow> bool" where
  "transformed_to E v m = (\<exists>g. v = PyGeom g \<and> transform E (DEFAULT_PROJ E) g = Inr m)"





section \<open>An example: an admin of sites\<close>

text \<open>The world of the example counts the queries made.\<close>

definition example_env :: "nat env" where
  "example_env =
     \<lparr>DEFAULT_PROJ = 3857,
      force_text = (\<lambda>ob. if pk ob = 1 then ''Harbour'' else if pk ob = 2 then ''Lighthouse'' else ''Buoy''),
      force_text_str = (\<lambda>s. s),
      geom_bool = (\<lambda>g. wkt g \<noteq> ''GEOMETRYCOLLECTION EMPTY''),
      transform = (\<lambda>s g. case srid g of
                            None \<Rightarrow> Inl (OtherException ''GEOSException'')
                          | Some _ \<Rightarrow> Inr (g\<lparr>srid := Some s\<rparr>)),
      map_media = (\<lambda>m. [''olwidget.js'']),
      media_add = (\<lambda>a b. a @ b),
      ERROR_FLAG = ''e'',
      ACTION_CHECKBOX_NAME = ''_selected_action'',
      gettext = (\<lambda>s. s),
      ungettext = (\<lambda>s p n. if n = 1 then s else p),
      percent = (\<lambda>s args. s),
      map_bool = (\<lambda>m. True),
      formset_bool = (\<lambda>fs. True),
      fix_initial_data = (\<lambda>d km. case km of (g, k # _) # _ \<Rightarrow> (d(g := d k))(k := None) | _ \<Rightarrow> d),
      fix_cleaned_data = (\<lambda>d km. case km of (g, k # _) # _ \<Rightarrow> (d(k := d g))(g := None) | _ \<Rightarrow> d),
      apply_maps_to_modelform_fields =
        (\<lambda>flds mps opt tmpl cls. ([(''map'', map fst flds)], [(''map'', ''MapField'')]))\<rparr>"

definition harbour :: "nat obj" where
  "harbour =
     \<lparr>pk = 1,
      attrs = [''geom'' \<mapsto> PyGeom \<lparr>geom_type = Point, srid = Some 4326, wkt = ''POINT (1 2)''\<rparr>,
               ''centre'' \<mapsto> PyCallable (\<lambda>w. (Inr (PyGeom \<lparr>geom_type = Point, srid = Some 4326, wkt = ''POINT (0 0)''\<rparr>), w))]\<rparr>"

definition lighthouse :: "nat obj" where
  "lighthouse = \<lparr>pk = 2, attrs = [''geom'' \<mapsto> PyNone, ''centre'' \<mapsto> PyNone]\<rparr>"

text \<open>A site whose method \<^verbatim>\<open>centre\<close> returns \<^verbatim>\<open>None\<close>.\<close>

definition buoy :: "nat obj" where
  "buoy = \<lparr>pk = 3, attrs = [''geom'' \<mapsto> PyNone, ''centre'' \<mapsto> PyCallable (\<lambda>w. (Inr PyNone, w))]\<rparr>"

definition example_opts :: opts where
  "example_opts = \<lparr>app_label = ''sites'', model_name = ''site'', verbose_name = ''site'',
                   verbose_name_plural = ''sites''\<rparr>"

definition example_cl :: "nat obj list \<Rightarrow> nat changelist" where
  "example_cl qs =
     \<lparr>result_list = qs, result_count = length qs, title = ''Select site to change'',
      is_popup = False, to_field = None, cl_opts = example_opts, cl_list_editable = [],
      formset = None,
      get_queryset = (\<lambda>r w. (Inr qs, Suc w)),
      url_for_result = (\<lambda>ob. ''/admin/sites/site/'' @
                          (if pk ob = 1 then ''1'' else if pk ob = 2 then ''2'' else ''3'') @ ''/'')\<rparr>"

definition example_form_class :: form_class where
  "example_form_class =
     \<lparr>init = (\<lambda>args f. (Inr (), f\<lparr>initial := Some [''geom'' \<mapsto> ''POINT (1 2)'']\<rparr>)),
      clean = (\<lambda>f. (Inr (Some [''stale'' \<mapsto> ''1'']),
                     f\<lparr>cleaned_data := Some [''map'' \<mapsto> ''POINT (3 4)'']\<rparr>)),
      base_fields = [(''geom'', ''PointField'')],
      initial_data_keymap = None\<rparr>"

text \<open>
  The admin, with its \<^verbatim>\<open>list_map\<close> and the class its \<^verbatim>\<open>get_changelist\<close> returns; it has
  no actions and no editable columns.
\<close>

definition example_admin :: "string list option \<Rightarrow> nat changelist_class \<Rightarrow> nat model_admin" where
  "example_admin lm ChangeList =
     \<lparr>options = None, map_template = ''olwidget/admin_olwidget.html'', list_map = lm,
      list_map_options = None, maps = None,
      change_list_template = Some ''admin/olwidget_change_list.html'',
      default_field_class = None, model_meta = example_opts, date_hierarchy = None,
      list_select_related = False, list_per_page = 100, list_max_show_all = 200,
      list_editable = [], actions_on_top = True, actions_on_bottom = False,
      actions_selection_counter = True, media = [''admin.js''], admin_site_name = ''admin'',
      has_change_permission = (\<lambda>r. returnM True),
      get_list_display = (\<lambda>r. returnM [''__str__'']),
      get_list_display_links = (\<lambda>r ld. returnM []),
      get_list_filter = (\<lambda>r. returnM []),
      get_search_fields = (\<lambda>r. returnM []),
      get_actions = (\<lambda>r. returnM []),
      get_changelist = (\<lambda>r. returnM ChangeList),
      response_action = (\<lambda>r qs. returnM None),
      message_user = (\<lambda>r msg lvl. returnM ()),
      get_changelist_formset = (\<lambda>r. returnM (\<lambda>d qs. returnM \<lparr>forms = [], is_valid = returnM True,
                                                                   formset_media = []\<rparr>)),
      save_form = (\<lambda>r f. returnM harbour),
      save_model = (\<lambda>r ob f. returnM ()),
      save_related = (\<lambda>r f. returnM ()),
      construct_change_message = (\<lambda>r f. returnM ''Changed.''),
      log_change = (\<lambda>r ob msg. returnM ()),
      new_action_form = returnM \<lparr>choices = []\<rparr>,
      get_action_choices = (\<lambda>r. returnM []),
      each_context = (\<lambda>r. returnM [''site_title'' \<mapsto> CStr ''Sites'']),
      has_add_permission = (\<lambda>r. returnM True),
      get_preserved_filters = (\<lambda>r. returnM []),
      super_get_form = (\<lambda>args. returnM example_form_class)\<rparr>"

text \<open>The class of change lists over a queryset, and one whose lookup parameters are wrong.\<close>

definition example_ChangeList :: "nat obj list \<Rightarrow> nat changelist_class" where
  "example_ChangeList qs = (\<lambda>r m ld ldl lf dh sf lsr lpp lmsa le. returnM (example_cl qs))"

definition wacky_ChangeList :: "nat changelist_class" where
  "wacky_ChangeList = (\<lambda>r m ld ldl lf dh sf lsr lpp lmsa le. raiseM IncorrectLookupParameters)"

definition failing_ChangeList :: "nat changelist_class" where
  "failing_ChangeList = (\<lambda>r m ld ldl lf dh sf lsr lpp lmsa le. raiseM (OtherException ''DatabaseError''))"

definition example_request :: "(string \<Rightarrow> string list option) \<Rightarrow> request" where
  "example_request params =
     \<lparr>path = ''/admin/sites/site/'', full_path = ''/admin/sites/site/'', http_method = ''GET'',
      GET = params, POST = Map.empty, FILES = Map.empty, current_app = None\<rparr>"


text \<open>
  A change list as the framework makes it: its \<^verbatim>\<open>get_queryset\<close> takes the request and
  raises \<^verbatim>\<open>TypeError\<close> when it is called without.
\<close>

definition framework_cl :: "nat obj list \<Rightarrow> nat changelist" where
  "framework_cl qs =
     (example_cl qs)
       \<lparr>get_queryset := (\<lambda>r w. case r of None \<Rightarrow> (Inl TypeError, w) | Some _ \<Rightarrow> (Inr qs, Suc w))\<rparr>"

definition framework_ChangeList :: "nat obj list \<Rightarrow> nat changelist_class" where
  "framework_ChangeList qs = (\<lambda>r m ld ldl lf dh sf lsr lpp lmsa le. returnM (framework_cl qs))"

text \<open>The context of a change list of the example before the map is added.\<close>

definition example_context :: "nat changelist \<Rightarrow> nat template_context" where
  "example_context cl =
     [''site_title'' \<mapsto> CStr ''Sites''] ++ map_of
       [(''module_name'', CStr ''sites''),
        (''selection_note'', CStr ''0 of %(cnt)s selected''),
        (''selection_note_all'', CStr (if result_count cl = 1 then ''%(total_count)s selected''
                                       else ''All %(total_count)s selected'')),
        (''title'', CStr ''Select site to change''),
        (''is_popup'', CBool False),
        (''to_field'', CToField None),
        (''cl'', CChangeList cl),
        (''media'', CMedia [''admin.js'']),
        (''has_add_permission'', CBool True),
        (''opts'', COpts example_opts),
        (''action_form'', CActionForm None),
        (''actions_on_top'', CBool True),
        (''actions_on_bottom'', CBool False),
        (''actions_selection_counter'', CBool True),
        (''preserved_filters'', CStr [])]"

section \<open>Running computations\<close>

lemma returnM_apply [simp]: "returnM a w = (Inr a, w)"
  by (simp add: returnM_def)

lemma raiseM_apply [simp]: "raiseM e w = (Inl e, w)"
  by (simp add: raiseM_def)

lemma bindM_Inr [simp]: "m w = (Inr a, w') \<Longrightarrow> bindM m f w = f a w'"
  by (simp add: bindM_def)

lemma bindM_Inl [simp]: "m w = (Inl e, w') \<Longrightarrow> bindM m f w = (Inl e, w')"
  by (simp add: bindM_def)

lemma bindM_returnM [simp]: "bindM (returnM a) f = f a"
  by (rule ext) (simp add: bindM_def returnM_def)

lemma bindM_raiseM [simp]: "bindM (raiseM e) f = raiseM e"
  by (rule ext) (simp add: bindM_def raiseM_def)

lemma bindM_Inr_iff:
  "bindM m f w = (Inr b, w2) \<longleftrightarrow> (\<exists>a w1. m w = (Inr a, w1) \<and> f a w1 = (Inr b, w2))"
  by (auto simp: bindM_def split: prod.splits sum.splits)

lemma bindM_InrE:
  assumes "bindM m f w = (Inr b, w2)"
  obtains a w1 where "m w = (Inr a, w1)" and "f a w1 = (Inr b, w2)"
  using assms unfolding bindM_Inr_iff by blast

lemma try_except_Inl [simp]:
  "m w = (Inl e, w') \<Longrightarrow> try_except m E h w = (if e = E then h w' else (Inl e, w'))"
  by (simp add: try_except_def)

lemma flow_case_Continue:
  assumes "(case fl of Return r \<Rightarrow> returnM (Return r) | Continue a \<Rightarrow> k a) w = (Inr (Continue x), w')"
  obtains a where "fl = Continue a" and "k a w = (Inr (Continue x), w')"
  using assms by (cases fl) auto

section \<open>The loops of \<^verbatim>\<open>get_changelist_map\<close>\<close>

lemma has_geometry_iff:
  "has_geometry E fs ob \<longleftrightarrow> (\<exists>f\<in>set fs. \<exists>v. attrs ob f = Some v \<and> truthy E v)"
  unfolding has_geometry_def
  by (induction fs) (auto split: option.splits)


lemma as_geometries_map_Some:
  "as_geometries (map PyGeom ms) = Some gs \<Longrightarrow> gs = ms"
  by (induction ms arbitrary: gs) (auto split: if_splits option.splits)

lemma GeometryCollection_Inr:
  assumes "GeometryCollection (map PyGeom ms) s w = (Inr gc, w')"
  shows "gc = \<lparr>gc_geoms = ms, gc_srid = s\<rparr> \<and> w' = w"
  using assms as_geometries_map_Some [of ms]
  by (cases "as_geometries (map PyGeom ms :: 'a pyval list)") (auto simp: GeometryCollection_def)




text \<open>What the loops have done when they return.\<close>

lemma collect_geoms_Inr:
  "collect_geoms E fs ob acc w = (Inr res, w') \<Longrightarrow>
   \<exists>new. res = acc @ new \<and> list_all2 collected_from (listed_values E fs ob) new"
proof (induction fs arbitrary: acc w)
  case Nil
  then show ?case by simp
next
  case (Cons f fs)
  from Cons.prems obtain v where v: "attrs ob f = Some v"
    by (cases "attrs ob f") (simp_all add: getattr_def)
  show ?case
  proof (cases "truthy E v")
    case False
    with Cons v show ?thesis
      by (simp add: getattr_def)
  next
    case True
    from Cons.prems v True obtain r w1 where
      r: "(if callable v then call v else returnM v) w = (Inr r, w1)"
      and rest: "collect_geoms E fs ob (acc @ [r]) w1 = (Inr res, w')"
      by (auto simp: getattr_def bindM_Inr_iff)
    from r have "collected_from v r"
      by (cases v) (auto simp: collected_from_def)
    moreover from Cons.IH [OF rest] obtain new where
      "res = (acc @ [r]) @ new" "list_all2 collected_from (listed_values E fs ob) new"
      by blast
    ultimately show ?thesis
      using v True by (intro exI [of _ "r # new"]) simp
  qed
qed

lemma geom_transform_Inr:
  assumes "geom_transform E v s w = (Inr r, w')"
  obtains g m where "v = PyGeom g" and "transform E s g = Inr m" and "r = PyGeom m" and "w' = w"
proof (cases v)
  case (PyGeom g)
  with assms that show thesis
    by (cases "transform E s g") auto
qed (use assms in auto)

lemma transform_geoms_Inr:
  "transform_geoms E vs w = (Inr vs', w') \<Longrightarrow>
   w' = w \<and> (\<exists>ms. vs' = map PyGeom ms \<and> list_all2 (transformed_to E) vs ms)"
proof (induction vs arbitrary: vs')
  case Nil
  then show ?case by simp
next
  case (Cons v vs)
  from Cons.prems obtain r w1 rs where
    r: "geom_transform E v (DEFAULT_PROJ E) w = (Inr r, w1)"
    and rs: "transform_geoms E vs w1 = (Inr rs, w')" and vs': "vs' = r # rs"
    by (auto simp: bindM_Inr_iff)
  from r obtain g m where g: "v = PyGeom g" "transform E (DEFAULT_PROJ E) g = Inr m"
    "r = PyGeom m" "w1 = w"
    by (rule geom_transform_Inr)
  then have "transformed_to E v m"
    by (simp add: transformed_to_def)
  moreover from Cons.IH [of rs] rs g obtain ms where
    "w' = w" "rs = map PyGeom ms" "list_all2 (transformed_to E) vs ms"
    by auto
  ultimately show ?case
    using vs' g by (intro conjI exI [of _ "m # ms"]) simp_all
qed


lemma get_queryset_case:
  "(case req of Some r \<Rightarrow> get_queryset cl (Some r) | None \<Rightarrow> get_queryset cl None) = get_queryset cl req"
  by (cases req) simp_all



lemma collect_geoms_unset:
  "\<forall>f\<in>set fs. \<exists>v. attrs ob f = Some v \<and> \<not> truthy E v \<Longrightarrow>
   collect_geoms E fs ob geoms = returnM geoms"
  by (induction fs) (auto simp: getattr_def)

lemma changelist_map_info_unset:
  assumes "\<forall>f\<in>set fs. \<exists>v. attrs ob f = Some v \<and> \<not> truthy E v"
  shows "changelist_map_info E fs cl (pre @ ob # post) infos =
         changelist_map_info E fs cl (pre @ post) infos"
proof (induction pre arbitrary: infos)
  case Nil
  show ?case using collect_geoms_unset [OF assms] by simp
next
  case (Cons a pre)
  then show ?case by (simp cong: if_cong)
qed

lemma changelist_map_info_url:
  "url_for_result cl' = url_for_result cl \<Longrightarrow>
   changelist_map_info E fs cl' qs infos = changelist_map_info E fs cl qs infos"
  by (induction qs arbitrary: infos) (simp_all cong: if_cong)

text \<open>
  C3. An object of the queryset for which no listed geometry field is set (the value of
  every listed attribute is false) gets no entry: the loop over the queryset goes on
  from it with the same \<^verbatim>\<open>info\<close> and the same world as it came to it, and the map is the
  one \<^verbatim>\<open>get_changelist_map\<close> returns for the queryset without the object.
\<close>

theorem get_changelist_map_unset:
  assumes "list_map self = Some fs"
    and "\<forall>f\<in>set fs. \<exists>v. attrs ob f = Some v \<and> \<not> truthy E v"
    and "get_queryset cl req w = (Inr (pre @ ob # post), w0)"
    and "get_queryset cl' req w = (Inr (pre @ post), w0)"
    and "url_for_result cl' = url_for_result cl"
  shows "changelist_map_info E fs cl (pre @ ob # post) infos =
           changelist_map_info E fs cl (pre @ post) infos \<and>
         get_changelist_map E self cl req w = get_changelist_map E self cl' req w"
proof
  show "changelist_map_info E fs cl (pre @ ob # post) infos =
        changelist_map_info E fs cl (pre @ post) infos"
    using assms(2) by (rule changelist_map_info_unset)
  show "get_changelist_map E self cl req w = get_changelist_map E self cl' req w"
    using assms(1,3,4) changelist_map_info_unset [OF assms(2), where infos="[]" and cl=cl and pre=pre and post=post]
      changelist_map_info_url [OF assms(5), where infos="[]" and qs="pre @ post" and E=E and fs=fs]
    by (simp add: get_changelist_map_def get_queryset_case)
qed

theorem get_changelist_map_unset_witness:
  "attrs lighthouse ''geom'' = Some PyNone \<and> attrs lighthouse ''centre'' = Some PyNone \<and>
   \<not> truthy example_env (PyNone :: nat pyval) \<and>
   get_queryset (example_cl [harbour, lighthouse]) None 0 = (Inr ([harbour] @ lighthouse # []), 1) \<and>
   get_changelist_map example_env
     (example_admin (Some [''geom'', ''centre'']) (example_ChangeList [harbour, lighthouse]))
     (example_cl [harbour, lighthouse]) None 0 =
   get_changelist_map example_env
     (example_admin (Some [''geom'', ''centre'']) (example_ChangeList [harbour, lighthouse]))
     (example_cl [harbour]) None 0"
proof -
  let ?A = "example_admin (Some [''geom'', ''centre'']) (example_ChangeList [harbour, lighthouse])"
  have lm: "list_map ?A = Some [''geom'', ''centre'']"
    by (simp add: example_admin_def)
  have unset: "\<forall>f\<in>set [''geom'', ''centre'']. \<exists>v. attrs lighthouse f = Some v \<and> \<not> truthy example_env v"
    by (simp add: lighthouse_def)
  have qs: "get_queryset (example_cl [harbour, lighthouse]) None 0 = (Inr ([harbour] @ lighthouse # []), 1)"
    by (simp add: example_cl_def)
  have qs': "get_queryset (example_cl [harbour]) None 0 = (Inr ([harbour] @ []), 1)"
    by (simp add: example_cl_def)
  have url: "url_for_result (example_cl [harbour]) = url_for_result (example_cl [harbour, lighthouse])"
    by (simp add: example_cl_def)
  have "attrs lighthouse ''geom'' = Some PyNone" and "attrs lighthouse ''centre'' = Some PyNone"
    and "\<not> truthy example_env (PyNone :: nat pyval)"
    by (simp_all add: lighthouse_def)
  moreover from get_changelist_map_unset [OF lm unset qs qs' url]
  have "get_changelist_map example_env ?A (example_cl [harbour, lighthouse]) None 0 =
        get_changelist_map example_env ?A (example_cl [harbour]) None 0"
    by (rule conjunct2)
  ultimately show ?thesis
    using qs by (intro conjI)
qed

text \<open>
  C4. When an object with collected geometries has been handled, each of the geometries
  has been transformed to \<^verbatim>\<open>int(DEFAULT_PROJ)\<close>, and the collection appended for the
  object holds the transformed geometries, in their order, and carries that same
  spatial reference identifier.
\<close>

theorem get_changelist_map_transforms:
  assumes "collect_geoms E fs ob [] w = (Inr geoms, w1)" and "geoms \<noteq> []"
    and "changelist_map_info E fs cl (ob # qs) infos w = (Inr infos', w')"
  shows "\<exists>ms. list_all2 (transformed_to E) geoms ms \<and>
           changelist_map_info E fs cl qs
             (infos @ [(\<lparr>gc_geoms = ms, gc_srid = DEFAULT_PROJ E\<rparr>,
                        popup_link (url_for_result cl ob) (force_text E ob))]) w1 = (Inr infos', w')"
proof -
  from assms(1,3) obtain geoms' w2 where
    transf: "transform_geoms E geoms w1 = (Inr geoms', w2)"
    and rest: "(if geoms' \<noteq> [] then
         bindM (GeometryCollection geoms' (DEFAULT_PROJ E)) (\<lambda>gc.
           changelist_map_info E fs cl qs
             (infos @ [(gc, popup_link (url_for_result cl ob) (force_text E ob))]))
       else changelist_map_info E fs cl qs infos) w2 = (Inr infos', w')"
    by (auto simp: bindM_Inr_iff)
  from transform_geoms_Inr [OF transf] obtain ms where
    ms: "w2 = w1" "geoms' = map PyGeom ms" "list_all2 (transformed_to E) geoms ms"
    by blast
  with assms(2) have "geoms' \<noteq> []"
    by auto
  with rest ms obtain gc w3 where
    "GeometryCollection (map PyGeom ms) (DEFAULT_PROJ E) w1 = (Inr gc, w3)"
    "changelist_map_info E fs cl qs
       (infos @ [(gc, popup_link (url_for_result cl ob) (force_text E ob))]) w3 = (Inr infos', w')"
    by (auto elim: bindM_InrE)
  with GeometryCollection_Inr [of ms "DEFAULT_PROJ E" w1 gc w3] ms show ?thesis
    by (intro exI [of _ ms]) simp
qed

theorem get_changelist_map_transforms_witness:
  "collect_geoms example_env [''geom''] harbour [] 0 =
     (Inr [PyGeom \<lparr>geom_type = Point, srid = Some 4326, wkt = ''POINT (1 2)''\<rparr>], 0) \<and>
   changelist_map_info example_env [''geom''] (example_cl [harbour]) [harbour] [] 0 =
     (Inr [(\<lparr>gc_geoms = [\<lparr>geom_type = Point, srid = Some 3857, wkt = ''POINT (1 2)''\<rparr>], gc_srid = 3857\<rparr>,
            popup_link ''/admin/sites/site/1/'' ''Harbour'')], 0) \<and>
   (\<exists>ms. list_all2 (transformed_to example_env) [PyGeom \<lparr>geom_type = Point, srid = Some 4326, wkt = ''POINT (1 2)''\<rparr>] ms \<and>
      [(\<lparr>gc_geoms = ms, gc_srid = 3857\<rparr>, popup_link ''/admin/sites/site/1/'' ''Harbour'')] =
      [(\<lparr>gc_geoms = [\<lparr>geom_type = Point, srid = Some 3857, wkt = ''POINT (1 2)''\<rparr>], gc_srid = 3857\<rparr>,
            popup_link ''/admin/sites/site/1/'' ''Harbour'')])"
proof -
  have c: "collect_geoms example_env [''geom''] harbour [] 0 =
     (Inr [PyGeom \<lparr>geom_type = Point, srid = Some 4326, wkt = ''POINT (1 2)''\<rparr>], 0)"
    by (simp add: harbour_def example_env_def getattr_def)
  have ne: "[PyGeom \<lparr>geom_type = Point, srid = Some 4326, wkt = ''POINT (1 2)''\<rparr>] \<noteq> ([] :: nat pyval list)"
    by simp
  have r: "changelist_map_info example_env [''geom''] (example_cl [harbour]) [harbour] [] 0 =
     (Inr [(\<lparr>gc_geoms = [\<lparr>geom_type = Point, srid = Some 3857, wkt = ''POINT (1 2)''\<rparr>], gc_srid = 3857\<rparr>,
            popup_link ''/admin/sites/site/1/'' ''Harbour'')], 0)"
    by (simp add: harbour_def example_env_def example_cl_def getattr_def GeometryCollection_def)
  from get_changelist_map_transforms [OF c ne r] c r show ?thesis
    by (simp add: example_env_def example_cl_def harbour_def)
qed

lemma collect_geoms_prefix:
  "collect_geoms E fs ob acc w = (Inr res, w') \<Longrightarrow> \<exists>new. res = acc @ new"
  by (drule collect_geoms_Inr) (elim exE conjE, rule exI)

text \<open>
  C8. A listed attribute whose value is callable (and so true) is called, with no
  arguments, in the world the loop has reached; what the call returns is appended to
  the collected geometries in place of the callable, and the loop goes on from the
  world the call has left.
\<close>

theorem collect_geoms_callable:
  assumes "attrs ob f = Some (PyCallable c)" and "c w = (Inr v, w1)"
    and "collect_geoms E (f # fs) ob geoms w = (Inr res, w2)"
  shows "collect_geoms E fs ob (geoms @ [v]) w1 = (Inr res, w2) \<and> (\<exists>new. res = geoms @ v # new)"
proof -
  from assms have *: "collect_geoms E fs ob (geoms @ [v]) w1 = (Inr res, w2)"
    by (simp add: getattr_def)
  from collect_geoms_prefix [OF *] show ?thesis
    using * by auto
qed

theorem collect_geoms_callable_witness:
  "attrs harbour ''centre'' =
     Some (PyCallable (\<lambda>w. (Inr (PyGeom \<lparr>geom_type = Point, srid = Some 4326, wkt = ''POINT (0 0)''\<rparr>), w))) \<and>
   collect_geoms example_env [''centre''] harbour [] (0::nat) =
     (Inr [PyGeom \<lparr>geom_type = Point, srid = Some 4326, wkt = ''POINT (0 0)''\<rparr>], 0) \<and>
   (\<exists>new. [PyGeom \<lparr>geom_type = Point, srid = Some 4326, wkt = ''POINT (0 0)''\<rparr>] =
      [] @ PyGeom \<lparr>geom_type = Point, srid = Some 4326, wkt = ''POINT (0 0)''\<rparr> # (new :: nat pyval list))"
proof -
  let ?c = "\<lambda>w::nat. (Inr (PyGeom \<lparr>geom_type = Point, srid = Some 4326, wkt = ''POINT (0 0)''\<rparr> :: nat pyval) :: exn + nat pyval, w)"
  have a: "attrs harbour ''centre'' = Some (PyCallable ?c)"
    by (simp add: harbour_def)
  have b: "?c 0 = (Inr (PyGeom \<lparr>geom_type = Point, srid = Some 4326, wkt = ''POINT (0 0)''\<rparr>), 0)"
    by simp
  have r: "collect_geoms example_env [''centre''] harbour [] (0::nat) =
     (Inr [PyGeom \<lparr>geom_type = Point, srid = Some 4326, wkt = ''POINT (0 0)''\<rparr>], 0)"
    by (simp add: harbour_def example_env_def getattr_def)
  from collect_geoms_callable [OF a b r]
  have "\<exists>new. [PyGeom \<lparr>geom_type = Point, srid = Some 4326, wkt = ''POINT (0 0)''\<rparr>] =
      [] @ PyGeom \<lparr>geom_type = Point, srid = Some 4326, wkt = ''POINT (0 0)''\<rparr> # (new :: nat pyval list)"
    by (rule conjunct2)
  with a r show ?thesis
    by (intro conjI)
qed

section \<open>The patched form class\<close>

text \<open>
  C6. \<^verbatim>\<open>get_form\<close> returns the class the parent's \<^verbatim>\<open>get_form\<close> has generated, patched:
  its \<^verbatim>\<open>__init__\<close> runs the original \<^verbatim>\<open>__init__\<close> first and then applies
  \<^verbatim>\<open>fix_initial_data\<close> to the \<^verbatim>\<open>initial\<close> of the form with the keymap; its \<^verbatim>\<open>clean\<close> runs
  the original \<^verbatim>\<open>clean\<close> first and then applies \<^verbatim>\<open>fix_cleaned_data\<close> to the
  \<^verbatim>\<open>cleaned_data\<close> of the form; and \<^verbatim>\<open>initial_data_keymap\<close> is what
  \<^verbatim>\<open>apply_maps_to_modelform_fields\<close> returns on the \<^verbatim>\<open>base_fields\<close> of the class.
\<close>

theorem get_form_patches:
  assumes "super_get_form self args w = (Inr C, wa)"
  shows "\<exists>C'. get_form E self args w = (Inr C', wa) \<and>
           initial_data_keymap C' =
             Some (fst (apply_maps_to_modelform_fields E (base_fields C) (maps self) (options self)
                          (map_template self) (default_field_class self))) \<and>
           base_fields C' =
             snd (apply_maps_to_modelform_fields E (base_fields C) (maps self) (options self)
                    (map_template self) (default_field_class self)) \<and>
           (\<forall>a f. init C' a f =
              (case init C a f of
                 (Inl e, f') \<Rightarrow> (Inl e, f')
               | (Inr u, f') \<Rightarrow>
                   (case (initial f', self_initial_data_keymap f') of
                      (Some d, Some km) \<Rightarrow> (Inr (), f'\<lparr>initial := Some (fix_initial_data E d km)\<rparr>)
                    | _ \<Rightarrow> (Inl AttributeError, f')))) \<and>
           (\<forall>f. clean C' f =
              (case clean C f of
                 (Inl e, f') \<Rightarrow> (Inl e, f')
               | (Inr r, f') \<Rightarrow>
                   (case (cleaned_data f', self_initial_data_keymap f') of
                      (Some d, Some km) \<Rightarrow>
                        (Inr (Some (fix_cleaned_data E d km)),
                         f'\<lparr>cleaned_data := Some (fix_cleaned_data E d km)\<rparr>)
                    | _ \<Rightarrow> (Inl AttributeError, f'))))"
  using assms
  by (auto simp: get_form_def new_init_def new_clean_def Let_def bindM_def
      split: prod.splits sum.splits option.splits)

theorem get_form_patches_witness:
  "super_get_form (example_admin None wacky_ChangeList) [] 0 = (Inr example_form_class, 0) \<and>
   (\<exists>C'. get_form example_env (example_admin None wacky_ChangeList) [] 0 = (Inr C', 0) \<and>
      initial_data_keymap C' = Some [(''map'', [''geom''])] \<and>
      base_fields C' = [(''map'', ''MapField'')] \<and>
      new_form C' [] =
        (Inr (), \<lparr>initial = Some (fix_initial_data example_env [''geom'' \<mapsto> ''POINT (1 2)'']
                                    [(''map'', [''geom''])]),
                  cleaned_data = None,
                  self_initial_data_keymap = Some [(''map'', [''geom''])]\<rparr>))"
proof -
  let ?A = "example_admin None wacky_ChangeList"
  have sup: "super_get_form ?A [] 0 = (Inr example_form_class, 0)"
    by (simp add: example_admin_def)
  have am: "apply_maps_to_modelform_fields example_env (base_fields example_form_class) (maps ?A)
      (options ?A) (map_template ?A) (default_field_class ?A)
      = ([(''map'', [''geom''])], [(''map'', ''MapField'')])"
    by (simp add: example_env_def example_form_class_def)
  from get_form_patches [OF sup, of example_env] obtain C' where
    C': "get_form example_env ?A [] 0 = (Inr C', 0)"
    "initial_data_keymap C' = Some [(''map'', [''geom''])]"
    "base_fields C' = [(''map'', ''MapField'')]"
    and i: "\<And>a f. init C' a f =
              (case init example_form_class a f of
                 (Inl e, f') \<Rightarrow> (Inl e, f')
               | (Inr u, f') \<Rightarrow>
                   (case (initial f', self_initial_data_keymap f') of
                      (Some d, Some km) \<Rightarrow> (Inr (), f'\<lparr>initial := Some (fix_initial_data example_env d km)\<rparr>)
                    | _ \<Rightarrow> (Inl AttributeError, f')))"
    unfolding am fst_conv snd_conv by blast
  have "new_form C' [] =
        (Inr (), \<lparr>initial = Some (fix_initial_data example_env [''geom'' \<mapsto> ''POINT (1 2)'']
                                    [(''map'', [''geom''])]),
                  cleaned_data = None,
                  self_initial_data_keymap = Some [(''map'', [''geom''])]\<rparr>)"
    by (simp add: new_form_def i C'(2) example_form_class_def)
  with sup C' show ?thesis
    by blast
qed

text \<open>
  C9. The patched \<^verbatim>\<open>clean\<close> returns the \<^verbatim>\<open>cleaned_data\<close> attribute of the form: what
  the original \<^verbatim>\<open>clean\<close> has returned (\<open>r\<close> below) is not in the result.
\<close>

theorem get_form_clean_returns_cleaned_data:
  assumes "super_get_form self args w = (Inr C, wa)"
    and "clean C f = (Inr r, f')"
    and "cleaned_data f' = Some d" and "self_initial_data_keymap f' = Some km"
  shows "\<exists>C' f''. get_form E self args w = (Inr C', wa) \<and>
           clean C' f = (Inr (cleaned_data f''), f'') \<and>
           f'' = f'\<lparr>cleaned_data := Some (fix_cleaned_data E d km)\<rparr>"
  using assms
  by (auto simp: get_form_def new_clean_def Let_def split: prod.splits)


theorem get_form_clean_returns_cleaned_data_witness:
  "super_get_form (example_admin None wacky_ChangeList) [] 0 = (Inr example_form_class, 0) \<and>
   clean example_form_class
     \<lparr>initial = None, cleaned_data = None, self_initial_data_keymap = Some [(''map'', [''geom''])]\<rparr> =
     (Inr (Some [''stale'' \<mapsto> ''1'']),
      \<lparr>initial = None, cleaned_data = Some [''map'' \<mapsto> ''POINT (3 4)''],
       self_initial_data_keymap = Some [(''map'', [''geom''])]\<rparr>) \<and>
   (\<exists>C' f''. get_form example_env (example_admin None wacky_ChangeList) [] 0 = (Inr C', 0) \<and>
      clean C'
        \<lparr>initial = None, cleaned_data = None, self_initial_data_keymap = Some [(''map'', [''geom''])]\<rparr> =
        (Inr (cleaned_data f''), f'') \<and>
      f'' = \<lparr>initial = None,
             cleaned_data = Some (fix_cleaned_data example_env [''map'' \<mapsto> ''POINT (3 4)'']
                                    [(''map'', [''geom''])]),
             self_initial_data_keymap = Some [(''map'', [''geom''])]\<rparr>)"
proof -
  let ?A = "example_admin None wacky_ChangeList"
  let ?f = "\<lparr>initial = None, cleaned_data = None, self_initial_data_keymap = Some [(''map'', [''geom''])]\<rparr>"
  let ?f' = "\<lparr>initial = None, cleaned_data = Some [''map'' \<mapsto> ''POINT (3 4)''],
       self_initial_data_keymap = Some [(''map'', [''geom''])]\<rparr>"
  have sup: "super_get_form ?A [] 0 = (Inr example_form_class, 0)"
    by (simp add: example_admin_def)
  have cl: "clean example_form_class ?f = (Inr (Some [''stale'' \<mapsto> ''1'']), ?f')"
    by (simp add: example_form_class_def)
  have cd: "cleaned_data ?f' = Some [''map'' \<mapsto> ''POINT (3 4)'']"
    and km: "self_initial_data_keymap ?f' = Some [(''map'', [''geom''])]"
    by simp_all
  from get_form_clean_returns_cleaned_data [OF sup cl cd km, of example_env]
  have "\<exists>C' f''. get_form example_env ?A [] 0 = (Inr C', 0) \<and>
      clean C' ?f = (Inr (cleaned_data f''), f'') \<and>
      f'' = \<lparr>initial = None,
             cleaned_data = Some (fix_cleaned_data example_env [''map'' \<mapsto> ''POINT (3 4)'']
                                    [(''map'', [''geom''])]),
             self_initial_data_keymap = Some [(''map'', [''geom''])]\<rparr>"
    by simp
  with sup cl show ?thesis
    by (intro conjI)
qed

section \<open>The change list view\<close>

lemmas example_defs = example_admin_def example_cl_def harbour_def lighthouse_def buoy_def
  example_env_def example_ChangeList_def example_request_def example_opts_def
  wacky_ChangeList_def failing_ChangeList_def

lemmas head_defs = changelist_view_head_def changelist_view_setup_def construct_changelist_def
  changelist_actions_def changelist_bulk_edit_def changelist_context_def try_except_def getlist_def

lemma example_head:
  "changelist_view_head example_env (example_admin lm (example_ChangeList qs))
     (example_request Map.empty) None w =
   (Inr (Continue (example_cl qs, example_context (example_cl qs))), w)"
  by (simp add: head_defs example_env_def example_admin_def example_ChangeList_def
      example_request_def example_context_def example_cl_def example_opts_def)

lemma framework_head:
  "changelist_view_head example_env (example_admin lm (framework_ChangeList qs))
     (example_request Map.empty) None w =
   (Inr (Continue (framework_cl qs, example_context (framework_cl qs))), w)"
  by (simp add: head_defs example_env_def example_admin_def framework_ChangeList_def
      framework_cl_def example_request_def example_context_def example_cl_def example_opts_def)

lemma example_map:
  "get_changelist_map example_env (example_admin (Some [''geom'', ''centre'']) C)
     (example_cl [harbour, lighthouse]) None 0 =
   (Inr (Some (InfoMap
      [(\<lparr>gc_geoms = [\<lparr>geom_type = Point, srid = Some 3857, wkt = ''POINT (1 2)''\<rparr>,
                     \<lparr>geom_type = Point, srid = Some 3857, wkt = ''POINT (0 0)''\<rparr>], gc_srid = 3857\<rparr>,
        ''<a href='' @ [CHR 0x27] @ ''/admin/sites/site/1/'' @ [CHR 0x27] @ ''>Harbour</a>'')] None)), 1)"
  by (simp add: get_changelist_map_def example_admin_def example_cl_def harbour_def
      lighthouse_def example_env_def getattr_def GeometryCollection_def popup_link_def)

lemma framework_map:
  "get_changelist_map example_env (example_admin (Some [''geom'']) C)
     (framework_cl [harbour]) (Some r) 0 =
   (Inr (Some (InfoMap
      [(\<lparr>gc_geoms = [\<lparr>geom_type = Point, srid = Some 3857, wkt = ''POINT (1 2)''\<rparr>], gc_srid = 3857\<rparr>,
        ''<a href='' @ [CHR 0x27] @ ''/admin/sites/site/1/'' @ [CHR 0x27] @ ''>Harbour</a>'')] None)), 1)"
  by (simp add: get_changelist_map_def example_admin_def example_cl_def framework_cl_def
      harbour_def example_env_def getattr_def GeometryCollection_def popup_link_def)

lemma framework_map_fails:
  "get_changelist_map example_env (example_admin (Some [''geom'']) C)
     (framework_cl [harbour]) None 0 = (Inl TypeError, 0)"
  by (simp add: get_changelist_map_def example_admin_def example_cl_def framework_cl_def)

lemma example_map_fails:
  "get_changelist_map example_env (example_admin (Some [''geom'', ''centre'']) C)
     (example_cl [harbour, buoy]) None 0 = (Inl AttributeError, 1)"
  by (simp add: get_changelist_map_def example_admin_def example_cl_def harbour_def
      buoy_def example_env_def getattr_def GeometryCollection_def)

text \<open>
  C10. When the construction of the \<^verbatim>\<open>ChangeList\<close> raises
  \<^verbatim>\<open>IncorrectLookupParameters\<close> and the error flag is among the keys of
  \<^verbatim>\<open>request.GET\<close>, the view returns the error page \<^verbatim>\<open>admin/invalid_setup.html\<close> with
  the title ``Database error'', and no redirect.
\<close>

theorem changelist_view_database_error:
  assumes "changelist_view_setup self request w = (Inr (ld, ldl, lf, sf, acts, ChangeList), wa)"
    and "ChangeList request (model_meta self) ld ldl lf (date_hierarchy self) sf
           (list_select_related self) (list_per_page self) (list_max_show_all self)
           (list_editable self) wa = (Inl IncorrectLookupParameters, wb)"
    and "GET request (ERROR_FLAG E) \<noteq> None"
  shows "changelist_view E self request extra_context w =
           (Inr (SimpleTemplateResponse ''admin/invalid_setup.html''
                   [''title'' \<mapsto> CStr (gettext E ''Database error'')]), wb)"
  using assms
  by (simp add: changelist_view_def changelist_view_head_def construct_changelist_def)

theorem changelist_view_database_error_witness:
  "changelist_view_setup (example_admin None wacky_ChangeList) (example_request [''e'' \<mapsto> [''1'']]) 0 =
     (Inr ([''__str__''], [], [], [], [], wacky_ChangeList), 0) \<and>
   GET (example_request [''e'' \<mapsto> [''1'']]) (ERROR_FLAG example_env) = Some [''1''] \<and>
   changelist_view example_env (example_admin None wacky_ChangeList)
     (example_request [''e'' \<mapsto> [''1'']]) None 0 =
     (Inr (SimpleTemplateResponse ''admin/invalid_setup.html''
             [''title'' \<mapsto> CStr (gettext example_env ''Database error'')]), 0)"
proof -
  let ?A = "example_admin None wacky_ChangeList"
  let ?R = "example_request [''e'' \<mapsto> [''1'']]"
  have su: "changelist_view_setup ?A ?R 0 = (Inr ([''__str__''], [], [], [], [], wacky_ChangeList), 0)"
    by (simp add: changelist_view_setup_def example_admin_def)
  have raises: "wacky_ChangeList ?R (model_meta ?A) [''__str__''] [] [] (date_hierarchy ?A) []
      (list_select_related ?A) (list_per_page ?A) (list_max_show_all ?A) (list_editable ?A) 0
      = (Inl IncorrectLookupParameters, 0)"
    by (simp add: wacky_ChangeList_def)
  have flag: "GET ?R (ERROR_FLAG example_env) = Some [''1'']"
    by (simp add: example_request_def example_env_def)
  then have present: "GET ?R (ERROR_FLAG example_env) \<noteq> None"
    by simp
  have "changelist_view example_env ?A ?R None 0 =
     (Inr (SimpleTemplateResponse ''admin/invalid_setup.html''
             [''title'' \<mapsto> CStr (gettext example_env ''Database error'')]), 0)"
    using su raises present
    by (rule changelist_view_database_error
        [where ChangeList = wacky_ChangeList and self = "?A" and request = "?R" and w = 0
           and E = example_env and extra_context = None])
  with su flag show ?thesis
    by (intro conjI)
qed

text \<open>
  C2, as the code has it. When the construction of the \<^verbatim>\<open>ChangeList\<close> raises
  \<^verbatim>\<open>IncorrectLookupParameters\<close> and the error flag is not yet among the keys of
  \<^verbatim>\<open>request.GET\<close>, the view returns a redirect to \<^verbatim>\<open>request.path + '?' + ERROR_FLAG + '=1'\<close>
  and the exception goes no further. Any other exception raised by the construction
  goes on to the caller.
\<close>

theorem changelist_view_lookup_error:
  assumes "changelist_view_setup self request w = (Inr (ld, ldl, lf, sf, acts, ChangeList), wa)"
    and "ChangeList request (model_meta self) ld ldl lf (date_hierarchy self) sf
           (list_select_related self) (list_per_page self) (list_max_show_all self)
           (list_editable self) wa = (Inl e, wb)"
  shows "(e = IncorrectLookupParameters \<and> GET request (ERROR_FLAG E) = None \<longrightarrow>
            changelist_view E self request extra_context w =
              (Inr (HttpResponseRedirect (path request @ ''?'' @ ERROR_FLAG E @ ''=1'')), wb)) \<and>
         (e \<noteq> IncorrectLookupParameters \<longrightarrow>
            changelist_view E self request extra_context w = (Inl e, wb))"
  using assms
  by (simp add: changelist_view_def changelist_view_head_def construct_changelist_def)

theorem changelist_view_lookup_error_witness:
  "changelist_view_setup (example_admin None wacky_ChangeList) (example_request Map.empty) 0 =
     (Inr ([''__str__''], [], [], [], [], wacky_ChangeList), 0) \<and>
   GET (example_request Map.empty) (ERROR_FLAG example_env) = None \<and>
   changelist_view example_env (example_admin None wacky_ChangeList) (example_request Map.empty) None 0 =
     (Inr (HttpResponseRedirect ''/admin/sites/site/?e=1''), 0) \<and>
   changelist_view example_env (example_admin None failing_ChangeList) (example_request Map.empty) None 0 =
     (Inl (OtherException ''DatabaseError''), 0)"
proof -
  let ?A = "example_admin None wacky_ChangeList"
  let ?B = "example_admin None failing_ChangeList"
  let ?R = "example_request Map.empty"
  have su: "changelist_view_setup ?A ?R 0 = (Inr ([''__str__''], [], [], [], [], wacky_ChangeList), 0)"
    by (simp add: changelist_view_setup_def example_admin_def)
  have raises: "wacky_ChangeList ?R (model_meta ?A) [''__str__''] [] [] (date_hierarchy ?A) []
      (list_select_related ?A) (list_per_page ?A) (list_max_show_all ?A) (list_editable ?A) 0
      = (Inl IncorrectLookupParameters, 0)"
    by (simp add: wacky_ChangeList_def)
  have flag: "GET ?R (ERROR_FLAG example_env) = None"
    by (simp add: example_request_def)
  have su': "changelist_view_setup ?B ?R 0 = (Inr ([''__str__''], [], [], [], [], failing_ChangeList), 0)"
    by (simp add: changelist_view_setup_def example_admin_def)
  have raises': "failing_ChangeList ?R (model_meta ?B) [''__str__''] [] [] (date_hierarchy ?B) []
      (list_select_related ?B) (list_per_page ?B) (list_max_show_all ?B) (list_editable ?B) 0
      = (Inl (OtherException ''DatabaseError''), 0)"
    by (simp add: failing_ChangeList_def)
  from changelist_view_lookup_error
    [where ChangeList = wacky_ChangeList and self = "?A" and request = "?R" and w = 0
       and E = example_env and extra_context = None and e = IncorrectLookupParameters
       and wa = 0 and wb = 0, OF su raises] flag
  have "changelist_view example_env ?A ?R None 0 =
      (Inr (HttpResponseRedirect (path ?R @ ''?'' @ ERROR_FLAG example_env @ ''=1'')), 0)"
    by simp
  then have redirect: "changelist_view example_env ?A ?R None 0 =
      (Inr (HttpResponseRedirect ''/admin/sites/site/?e=1''), 0)"
    by (simp add: example_request_def example_env_def)
  from changelist_view_lookup_error
    [where ChangeList = failing_ChangeList and self = "?B" and request = "?R" and w = 0
       and E = example_env and extra_context = None and e = "OtherException ''DatabaseError''"
       and wa = 0 and wb = 0, OF su' raises']
  have "changelist_view example_env ?B ?R None 0 = (Inl (OtherException ''DatabaseError''), 0)"
    by simp
  with su flag redirect show ?thesis
    by (intro conjI)
qed

text \<open>
  C2 as it is written fails twice. With wrong lookup parameters and the error flag
  already in the query string, the view returns the error page, not a redirect; and an
  exception of another class raised by the construction of the \<^verbatim>\<open>ChangeList\<close> is not
  caught.
\<close>

theorem changelist_view_any_exception_counterexample:
  "changelist_view example_env (example_admin None wacky_ChangeList)
     (example_request [''e'' \<mapsto> [''1'']]) None 0 =
     (Inr (SimpleTemplateResponse ''admin/invalid_setup.html'' [''title'' \<mapsto> CStr ''Database error'']), 0) \<and>
   changelist_view example_env (example_admin None failing_ChangeList) (example_request Map.empty) None 0 =
     (Inl (OtherException ''DatabaseError''), 0)"
  by (simp add: changelist_view_def head_defs example_defs)

text \<open>
  C5. The method is to answer every request as the parent's method does, but for the
  map and its media in the context when there is a map. The code does not, on two
  kinds of input. The inserted lines call \<^verbatim>\<open>get_changelist_map(cl)\<close> without the request that
  the function is written to take: with a change list as the framework makes it,
  whose \<^verbatim>\<open>get_queryset\<close> takes the request, the function returns the map when it is given
  the request, and the view raises \<^verbatim>\<open>TypeError\<close> where the parent's method returns the
  page. And a listed method that returns \<^verbatim>\<open>None\<close> (the site \<open>buoy\<close>) is tested before
  it is called: \<^verbatim>\<open>None\<close> is collected, \<^verbatim>\<open>None.transform\<close> raises, and the view raises
  \<^verbatim>\<open>AttributeError\<close> where the parent's method returns the page.
\<close>

theorem changelist_view_map_raises:
  "get_changelist_map example_env
     (example_admin (Some [''geom'']) (framework_ChangeList [harbour]))
     (framework_cl [harbour]) (Some (example_request Map.empty)) 0 =
     (Inr (Some (InfoMap
        [(\<lparr>gc_geoms = [\<lparr>geom_type = Point, srid = Some 3857, wkt = ''POINT (1 2)''\<rparr>],
           gc_srid = 3857\<rparr>, ''<a href='' @ [CHR 0x27] @ ''/admin/sites/site/1/'' @ [CHR 0x27] @ ''>Harbour</a>'')] None)), 1) \<and>
   ModelAdmin_changelist_view example_env
     (example_admin (Some [''geom'']) (framework_ChangeList [harbour]))
     (example_request Map.empty) None 0 =
     (Inr (TemplateResponse ((example_request Map.empty)\<lparr>current_app := Some ''admin''\<rparr>)
             (Template ''admin/olwidget_change_list.html'')
             (example_context (framework_cl [harbour]))), 0) \<and>
   changelist_view example_env
     (example_admin (Some [''geom'']) (framework_ChangeList [harbour]))
     (example_request Map.empty) None 0 = (Inl TypeError, 0) \<and>
   ModelAdmin_changelist_view example_env
     (example_admin (Some [''geom'', ''centre'']) (example_ChangeList [harbour, buoy]))
     (example_request Map.empty) None 0 =
     (Inr (TemplateResponse ((example_request Map.empty)\<lparr>current_app := Some ''admin''\<rparr>)
             (Template ''admin/olwidget_change_list.html'')
             (example_context (example_cl [harbour, buoy]))), 0) \<and>
   changelist_view example_env
     (example_admin (Some [''geom'', ''centre'']) (example_ChangeList [harbour, buoy]))
     (example_request Map.empty) None 0 = (Inl AttributeError, 1)"
proof (intro conjI)
  show "get_changelist_map example_env
     (example_admin (Some [''geom'']) (framework_ChangeList [harbour]))
     (framework_cl [harbour]) (Some (example_request Map.empty)) 0 =
     (Inr (Some (InfoMap
        [(\<lparr>gc_geoms = [\<lparr>geom_type = Point, srid = Some 3857, wkt = ''POINT (1 2)''\<rparr>],
           gc_srid = 3857\<rparr>, ''<a href='' @ [CHR 0x27] @ ''/admin/sites/site/1/'' @ [CHR 0x27] @ ''>Harbour</a>'')] None)), 1)"
    by (rule framework_map)
  show "ModelAdmin_changelist_view example_env
     (example_admin (Some [''geom'']) (framework_ChangeList [harbour]))
     (example_request Map.empty) None 0 =
     (Inr (TemplateResponse ((example_request Map.empty)\<lparr>current_app := Some ''admin''\<rparr>)
             (Template ''admin/olwidget_change_list.html'')
             (example_context (framework_cl [harbour]))), 0)"
    by (simp add: ModelAdmin_changelist_view_def framework_head)
      (simp add: changelist_view_tail_def example_admin_def)
  show "changelist_view example_env
     (example_admin (Some [''geom'']) (framework_ChangeList [harbour]))
     (example_request Map.empty) None 0 = (Inl TypeError, 0)"
    by (simp add: changelist_view_def changelist_view_map_def framework_head framework_map_fails)
  show "ModelAdmin_changelist_view example_env
     (example_admin (Some [''geom'', ''centre'']) (example_ChangeList [harbour, buoy]))
     (example_request Map.empty) None 0 =
     (Inr (TemplateResponse ((example_request Map.empty)\<lparr>current_app := Some ''admin''\<rparr>)
             (Template ''admin/olwidget_change_list.html'')
             (example_context (example_cl [harbour, buoy]))), 0)"
    by (simp add: ModelAdmin_changelist_view_def example_head)
      (simp add: changelist_view_tail_def example_admin_def)
  show "changelist_view example_env
     (example_admin (Some [''geom'', ''centre'']) (example_ChangeList [harbour, buoy]))
     (example_request Map.empty) None 0 = (Inl AttributeError, 1)"
    by (simp add: changelist_view_def changelist_view_map_def example_head example_map_fails)
qed

lemma changelist_context_media:
  assumes "changelist_context E self request cl fset acts extra_context w = (Inr ctx, w')"
    and "case extra_context of None \<Rightarrow> True | Some extra \<Rightarrow> extra ''media'' = None"
  shows "\<exists>md. ctx ''media'' = Some (CMedia md)"
  using assms
  by (auto simp: changelist_context_def Let_def bindM_Inr_iff map_add_def
      split: option.splits if_splits)

lemma changelist_view_head_Continue:
  assumes "changelist_view_head (E :: 'w env) self request extra_context w = (Inr (Continue (cl, ctx)), wa)"
  obtains cl0 fset acts w0 where
    "changelist_context E self request cl0 fset acts extra_context w0 = (Inr ctx, wa)"
proof -
  let ?K3 = "\<lambda>acts fl. case fl of
        Return r \<Rightarrow> returnM (Return (r :: 'w response))
      | Continue (fset, cl) \<Rightarrow>
          bindM (changelist_context E self request cl fset acts extra_context) (\<lambda>ctx.
            returnM (Continue (cl, ctx)))"
  let ?K2 = "\<lambda>acts cl fl. case fl of
        Return r \<Rightarrow> returnM (Return (r :: 'w response))
      | Continue action_failed \<Rightarrow>
          bindM (changelist_bulk_edit E self request cl action_failed) (?K3 acts)"
  let ?K1 = "\<lambda>acts fl. case fl of
        Return r \<Rightarrow> returnM (Return (r :: 'w response))
      | Continue cl \<Rightarrow> bindM (changelist_actions E self request cl acts) (?K2 acts cl)"
  from assms [unfolded changelist_view_head_def] obtain s wx where
    "(case s of (ld, ldl, lf, sf, acts, ChangeList) \<Rightarrow>
        bindM (construct_changelist E self request ChangeList ld ldl lf sf) (?K1 acts)) wx
       = (Inr (Continue (cl, ctx)), wa)"
    by (rule bindM_InrE)
  moreover obtain ld ldl lf sf acts ChangeList where "s = (ld, ldl, lf, sf, acts, ChangeList)"
    by (cases s) blast
  ultimately have "bindM (construct_changelist E self request ChangeList ld ldl lf sf) (?K1 acts) wx
       = (Inr (Continue (cl, ctx)), wa)"
    by simp
  then obtain fl1 wy where "?K1 acts fl1 wy = (Inr (Continue (cl, ctx)), wa)"
    by (rule bindM_InrE)
  then obtain cl1 where
    "bindM (changelist_actions E self request cl1 acts) (?K2 acts cl1) wy
       = (Inr (Continue (cl, ctx)), wa)"
    by (rule flow_case_Continue)
  then obtain fl2 wc where "?K2 acts cl1 fl2 wc = (Inr (Continue (cl, ctx)), wa)"
    by (rule bindM_InrE)
  then obtain action_failed where
    "bindM (changelist_bulk_edit E self request cl1 action_failed) (?K3 acts) wc
       = (Inr (Continue (cl, ctx)), wa)"
    by (rule flow_case_Continue)
  then obtain fl3 wd where "?K3 acts fl3 wd = (Inr (Continue (cl, ctx)), wa)"
    by (rule bindM_InrE)
  then obtain fset cl2 where
    "bindM (changelist_context E self request cl2 fset acts extra_context) (\<lambda>ctx.
       returnM (Continue (cl2, ctx) :: ('w response, 'w changelist \<times> 'w template_context) flow)) wd
     = (Inr (Continue (cl, ctx)), wa)"
    by (cases fl3) (auto split: prod.splits)
  then have "changelist_context E self request cl2 fset acts extra_context wd = (Inr ctx, wa)"
    by (auto elim: bindM_InrE)
  then show thesis by (rule that)
qed

lemma changelist_view_head_media:
  assumes "changelist_view_head E self request extra_context w = (Inr (Continue (cl, ctx)), wa)"
    and "case extra_context of None \<Rightarrow> True | Some extra \<Rightarrow> extra ''media'' = None"
  shows "\<exists>md. ctx ''media'' = Some (CMedia md)"
proof -
  from assms(1) obtain cl0 fset acts w0 where
    "changelist_context E self request cl0 fset acts extra_context w0 = (Inr ctx, wa)"
    by (rule changelist_view_head_Continue)
  from changelist_context_media [OF this assms(2)] show ?thesis .
qed

lemma get_changelist_map_unset_list_map:
  "list_map self = None \<Longrightarrow> get_changelist_map E self cl req w = (Inr None, w)"
  by (simp add: get_changelist_map_def)

text \<open>
  C7. When the method comes to render the change list, with the context \<open>ctx\<close> built
  so far, the response is the \<^verbatim>\<open>TemplateResponse\<close> of the request and of the change list
  template \<open>T\<close> with this context: \<open>ctx\<close> with \<^verbatim>\<open>'map'\<close> set to the map and the map's
  media added to \<^verbatim>\<open>'media'\<close> when \<^verbatim>\<open>get_changelist_map\<close> has returned a map that is true;
  \<open>ctx\<close> itself, with nothing added, when it has returned \<^verbatim>\<open>None\<close> or a map that is
  false; and there is no response, and so no context, when it has raised. With
  \<^verbatim>\<open>list_map\<close> not set, \<^verbatim>\<open>get_changelist_map\<close> returns \<^verbatim>\<open>None\<close>, whatever its arguments and
  the world, and the context is \<open>ctx\<close>. The context built so far has a \<^verbatim>\<open>Media\<close> under
  \<^verbatim>\<open>'media'\<close> unless \<^verbatim>\<open>extra_context\<close> has put something else there.
\<close>

theorem changelist_view_map_context:
  assumes "changelist_view_head E self request extra_context w = (Inr (Continue (cl, ctx)), wa)"
    and "T = (case change_list_template self of
                None \<Rightarrow> Templates
                  [''admin/'' @ app_label (model_meta self) @ ''/'' @ model_name (model_meta self) @
                     ''/change_list.html'',
                   ''admin/'' @ app_label (model_meta self) @ ''/change_list.html'',
                   ''admin/change_list.html'']
              | Some t \<Rightarrow>
                  if t \<noteq> [] then Template t
                  else Templates
                    [''admin/'' @ app_label (model_meta self) @ ''/'' @ model_name (model_meta self) @
                       ''/change_list.html'',
                     ''admin/'' @ app_label (model_meta self) @ ''/change_list.html'',
                     ''admin/change_list.html''])"
  shows "(\<forall>m md wb. get_changelist_map E self cl None wa = (Inr (Some m), wb) \<and> map_bool E m \<and>
              ctx ''media'' = Some (CMedia md) \<longrightarrow>
            changelist_view E self request extra_context w =
              (Inr (TemplateResponse (request\<lparr>current_app := Some (admin_site_name self)\<rparr>) T
                      (ctx(''media'' \<mapsto> CMedia (media_add E md (map_media E m)),
                           ''map'' \<mapsto> CMap m))), wb)) \<and>
         (\<forall>mo wb. get_changelist_map E self cl None wa = (Inr mo, wb) \<and>
              \<not> (\<exists>m. mo = Some m \<and> map_bool E m) \<longrightarrow>
            changelist_view E self request extra_context w =
              (Inr (TemplateResponse (request\<lparr>current_app := Some (admin_site_name self)\<rparr>) T ctx),
               wb)) \<and>
         (\<forall>e wb. get_changelist_map E self cl None wa = (Inl e, wb) \<longrightarrow>
            changelist_view E self request extra_context w = (Inl e, wb)) \<and>
         (list_map self = None \<longrightarrow>
            get_changelist_map E self cl' req w' = (Inr None, w') \<and>
            changelist_view E self request extra_context w =
              (Inr (TemplateResponse (request\<lparr>current_app := Some (admin_site_name self)\<rparr>) T ctx),
               wa)) \<and>
         ((case extra_context of None \<Rightarrow> True | Some extra \<Rightarrow> extra ''media'' = None) \<longrightarrow>
            (\<exists>md. ctx ''media'' = Some (CMedia md)))"
proof (intro conjI allI impI)
  fix m md wb
  assume "get_changelist_map E self cl None wa = (Inr (Some m), wb) \<and> map_bool E m \<and>
      ctx ''media'' = Some (CMedia md)"
  with assms show "changelist_view E self request extra_context w =
      (Inr (TemplateResponse (request\<lparr>current_app := Some (admin_site_name self)\<rparr>) T
              (ctx(''media'' \<mapsto> CMedia (media_add E md (map_media E m)), ''map'' \<mapsto> CMap m))), wb)"
    by (simp add: changelist_view_def changelist_view_map_def changelist_view_tail_def)
next
  fix mo wb
  assume "get_changelist_map E self cl None wa = (Inr mo, wb) \<and>
      \<not> (\<exists>m. mo = Some m \<and> map_bool E m)"
  with assms show "changelist_view E self request extra_context w =
      (Inr (TemplateResponse (request\<lparr>current_app := Some (admin_site_name self)\<rparr>) T ctx), wb)"
    by (cases mo) (simp_all add: changelist_view_def changelist_view_map_def changelist_view_tail_def)
next
  fix e wb
  assume "get_changelist_map E self cl None wa = (Inl e, wb)"
  with assms(1) show "changelist_view E self request extra_context w = (Inl e, wb)"
    by (simp add: changelist_view_def changelist_view_map_def)
next
  assume "list_map self = None"
  then show "get_changelist_map E self cl' req w' = (Inr None, w')"
    by (rule get_changelist_map_unset_list_map)
next
  assume "list_map self = None"
  then have "get_changelist_map E self cl None wa = (Inr None, wa)"
    by (rule get_changelist_map_unset_list_map)
  with assms show "changelist_view E self request extra_context w =
      (Inr (TemplateResponse (request\<lparr>current_app := Some (admin_site_name self)\<rparr>) T ctx), wa)"
    by (simp add: changelist_view_def changelist_view_map_def changelist_view_tail_def)
next
  assume "case extra_context of None \<Rightarrow> True | Some extra \<Rightarrow> extra ''media'' = None"
  with assms(1) show "\<exists>md. ctx ''media'' = Some (CMedia md)"
    by (rule changelist_view_head_media)
qed

theorem changelist_view_map_context_witness:
  "changelist_view_head example_env
     (example_admin (Some [''geom'', ''centre'']) (example_ChangeList [harbour, lighthouse]))
     (example_request Map.empty) None 0 =
     (Inr (Continue (example_cl [harbour, lighthouse],
                     example_context (example_cl [harbour, lighthouse]))), 0) \<and>
   get_changelist_map example_env
     (example_admin (Some [''geom'', ''centre'']) (example_ChangeList [harbour, lighthouse]))
     (example_cl [harbour, lighthouse]) None 0 =
     (Inr (Some (InfoMap
        [(\<lparr>gc_geoms = [\<lparr>geom_type = Point, srid = Some 3857, wkt = ''POINT (1 2)''\<rparr>,
                       \<lparr>geom_type = Point, srid = Some 3857, wkt = ''POINT (0 0)''\<rparr>],
           gc_srid = 3857\<rparr>, ''<a href='' @ [CHR 0x27] @ ''/admin/sites/site/1/'' @ [CHR 0x27] @ ''>Harbour</a>'')] None)), 1) \<and>
   example_context (example_cl [harbour, lighthouse]) ''media'' = Some (CMedia [''admin.js'']) \<and>
   changelist_view example_env
     (example_admin (Some [''geom'', ''centre'']) (example_ChangeList [harbour, lighthouse]))
     (example_request Map.empty) None 0 =
     (Inr (TemplateResponse ((example_request Map.empty)\<lparr>current_app := Some ''admin''\<rparr>)
             (Template ''admin/olwidget_change_list.html'')
             ((example_context (example_cl [harbour, lighthouse]))
                (''media'' \<mapsto> CMedia [''admin.js'', ''olwidget.js''],
                 ''map'' \<mapsto> CMap (InfoMap
                    [(\<lparr>gc_geoms = [\<lparr>geom_type = Point, srid = Some 3857, wkt = ''POINT (1 2)''\<rparr>,
                                   \<lparr>geom_type = Point, srid = Some 3857, wkt = ''POINT (0 0)''\<rparr>],
                       gc_srid = 3857\<rparr>, ''<a href='' @ [CHR 0x27] @ ''/admin/sites/site/1/'' @ [CHR 0x27] @ ''>Harbour</a>'')] None)))), 1) \<and>
   get_changelist_map example_env
     (example_admin None (example_ChangeList [harbour, lighthouse]))
     (example_cl [harbour, lighthouse]) None 0 = (Inr None, 0) \<and>
   changelist_view example_env
     (example_admin None (example_ChangeList [harbour, lighthouse]))
     (example_request Map.empty) None 0 =
     (Inr (TemplateResponse ((example_request Map.empty)\<lparr>current_app := Some ''admin''\<rparr>)
             (Template ''admin/olwidget_change_list.html'')
             (example_context (example_cl [harbour, lighthouse]))), 0)"
proof -
  let ?A = "example_admin (Some [''geom'', ''centre'']) (example_ChangeList [harbour, lighthouse])"
  let ?B = "example_admin None (example_ChangeList [harbour, lighthouse])"
  let ?R = "example_request Map.empty"
  let ?cl = "example_cl [harbour, lighthouse]"
  let ?T = "Template ''admin/olwidget_change_list.html''"
  let ?m = "InfoMap
        [(\<lparr>gc_geoms = [\<lparr>geom_type = Point, srid = Some 3857, wkt = ''POINT (1 2)''\<rparr>,
                       \<lparr>geom_type = Point, srid = Some 3857, wkt = ''POINT (0 0)''\<rparr>],
           gc_srid = 3857\<rparr>, ''<a href='' @ [CHR 0x27] @ ''/admin/sites/site/1/'' @ [CHR 0x27] @ ''>Harbour</a>'')] None"
  have hd: "changelist_view_head example_env ?A ?R None 0 = (Inr (Continue (?cl, example_context ?cl)), 0)"
    by (rule example_head)
  have hd': "changelist_view_head example_env ?B ?R None 0 = (Inr (Continue (?cl, example_context ?cl)), 0)"
    by (rule example_head)
  have T: "?T = (case change_list_template ?A of
                None \<Rightarrow> Templates
                  [''admin/'' @ app_label (model_meta ?A) @ ''/'' @ model_name (model_meta ?A) @
                     ''/change_list.html'',
                   ''admin/'' @ app_label (model_meta ?A) @ ''/change_list.html'',
                   ''admin/change_list.html'']
              | Some t \<Rightarrow>
                  if t \<noteq> [] then Template t
                  else Templates
                    [''admin/'' @ app_label (model_meta ?A) @ ''/'' @ model_name (model_meta ?A) @
                       ''/change_list.html'',
                     ''admin/'' @ app_label (model_meta ?A) @ ''/change_list.html'',
                     ''admin/change_list.html''])"
    by (simp add: example_admin_def)
  have T': "?T = (case change_list_template ?B of
                None \<Rightarrow> Templates
                  [''admin/'' @ app_label (model_meta ?B) @ ''/'' @ model_name (model_meta ?B) @
                     ''/change_list.html'',
                   ''admin/'' @ app_label (model_meta ?B) @ ''/change_list.html'',
                   ''admin/change_list.html'']
              | Some t \<Rightarrow>
                  if t \<noteq> [] then Template t
                  else Templates
                    [''admin/'' @ app_label (model_meta ?B) @ ''/'' @ model_name (model_meta ?B) @
                       ''/change_list.html'',
                     ''admin/'' @ app_label (model_meta ?B) @ ''/change_list.html'',
                     ''admin/change_list.html''])"
    by (simp add: example_admin_def)
  have mp: "get_changelist_map example_env ?A ?cl None 0 = (Inr (Some ?m), 1)"
    by (rule example_map)
  have md: "example_context ?cl ''media'' = Some (CMedia [''admin.js''])"
    by (simp add: example_context_def)
  have E: "map_bool example_env ?m" "media_add example_env [''admin.js''] (map_media example_env ?m)
      = [''admin.js'', ''olwidget.js'']"
    by (simp_all add: example_env_def)
  have site: "admin_site_name ?A = ''admin''" "admin_site_name ?B = ''admin''"
    by (simp_all add: example_admin_def)
  have unset: "list_map ?B = None"
    by (simp add: example_admin_def)
  from changelist_view_map_context [OF hd T, where cl' = "?cl" and req = None and w' = 0] mp md E
  have "changelist_view example_env ?A ?R None 0 =
     (Inr (TemplateResponse (?R\<lparr>current_app := Some (admin_site_name ?A)\<rparr>) ?T
             ((example_context ?cl)
                (''media'' \<mapsto> CMedia [''admin.js'', ''olwidget.js''], ''map'' \<mapsto> CMap ?m))), 1)"
    by simp
  moreover from changelist_view_map_context [OF hd' T', where cl' = "?cl" and req = None and w' = 0] unset
  have "get_changelist_map example_env ?B ?cl None 0 = (Inr None, 0)"
    and "changelist_view example_env ?B ?R None 0 =
     (Inr (TemplateResponse (?R\<lparr>current_app := Some (admin_site_name ?B)\<rparr>) ?T
             (example_context ?cl)), 0)"
    by simp_all
  ultimately show ?thesis
    using hd mp md unfolding site by (intro conjI)
qed

end
